theory Spec2Isabelle
  imports Complex_Main "HOL-Library.Word"
begin

section \<open>The Glue workflow notebook as a program over an explicit environment\<close>

text \<open>
  The program is the notebook \<^verbatim>\<open>customer_churn_ml_pipeline_glue_workflow.ipynb\<close>, its code
  cells run top to bottom. Every value the notebook obtains from outside (the uuid, the
  clock, the SDK sessions, the return values of remote calls, the downloaded file) is a
  field of the environment; every call that leaves the notebook, and every \<^verbatim>\<open>print\<close> and
  \<^verbatim>\<open>sleep\<close>, is appended to a log. Python variables that the notebook assigns exactly
  once are functions of the environment and keep the names of the source; the variable
  \<^verbatim>\<open>response\<close>, which is assigned again and again, is part of the state threaded through
  the cells. Cells are numbered as in the notebook, markdown cells included, from 0.

  A remote call is taken to return: the SDK's own exceptions are outside the model, as
  the notebook handles none of them. Cells 15, 20 and 30 only create clients or compute
  values, and cell 33 only displays a table of \<open>actuals\<close> against the rounded predictions;
  they make no call and are not steps of the state.
\<close>

subsection \<open>Python values\<close>

datatype py_error =
  NameError | KeyError | ValueError | EmptyDataError | ParserError | UnicodeEncodeError

type_synonym dict = "(string \<times> string) list"

text \<open>\<^verbatim>\<open>d[k]\<close> on a dict: the value, or KeyError.\<close>

definition getitem :: "dict \<Rightarrow> string \<Rightarrow> py_error + string" where
  "getitem d k = (case map_of d k of None \<Rightarrow> Inl KeyError | Some v \<Rightarrow> Inr v)"

text \<open>\<^verbatim>\<open>str(n)\<close> for a non-negative integer: its decimal digits.\<close>

definition digit :: "nat \<Rightarrow> char" where
  "digit n = ''0123456789'' ! (n mod 10)"

function str_nat :: "nat \<Rightarrow> string" where
  "str_nat n = (if n < 10 then [digit n] else str_nat (n div 10) @ [digit n])"
  by pat_completeness auto
termination
  by (relation "measure (\<lambda>n. n)") auto

text \<open>
  The text of a file or of a request body is a Python \<^verbatim>\<open>str\<close> of arbitrary characters:
  the list of its code points. \<open>ascii\<close> gives the code points of a literal.
\<close>

type_synonym unicode = "nat list"

definition ascii :: "string \<Rightarrow> unicode" where
  "ascii s = map of_char s"

subsection \<open>The environment\<close>

text \<open>
  The type \<open>'f\<close> stands for Python's \<^verbatim>\<open>float\<close>; the conversion of a text to a float is the
  environment's \<open>to_float\<close> (\<open>None\<close> where Python raises ValueError).
\<close>

record 'f env =
  uuid4_hex :: string
  region_name :: string
  default_bucket :: string
  get_execution_role :: string
  now_month :: nat
  now_day :: nat
  now_hour :: nat
  now_minute :: nat
  create_glue_role :: "string \<Rightarrow> string \<Rightarrow> string"
  s3_upload :: "string \<Rightarrow> string \<Rightarrow> string"
  image_uris_retrieve :: "string \<Rightarrow> string \<Rightarrow> string \<Rightarrow> string \<Rightarrow> string"
  start_workflow_run_id :: string
  workflow_run_status :: "nat \<Rightarrow> string"
  test_csv :: "unicode list list"
  endpoint_body :: string
  to_float :: "string \<Rightarrow> 'f option"

subsection \<open>Requests sent to the remote services\<close>

record job =
  job_Name :: string
  job_Description :: string
  job_Role :: string
  job_MaxConcurrentRuns :: int
  job_Command :: dict
  job_DefaultArguments :: dict
  job_MaxRetries :: int
  job_Timeout :: int
  job_MaxCapacity :: rat
  job_GlueVersion :: string

record action =
  act_JobName :: string
  act_Arguments :: dict

record condition =
  cond_LogicalOperator :: string
  cond_JobName :: string
  cond_State :: string

record trigger =
  trg_Name :: string
  trg_Description :: string
  trg_Type :: string
  trg_WorkflowName :: string
  trg_StartOnCreation :: "bool option"
  trg_Conditions :: "condition list option"
  trg_Actions :: "action list"

type_synonym bytes = "8 word list"

datatype event =
    CreateGlueRole string string
  | S3Upload string string
  | CreateWorkflow string string
  | CreateJob job
  | CreateTrigger trigger
  | StartWorkflowRun string
  | GetWorkflowRun string string bool
  | Print string
  | Sleep nat
  | S3Download string string
  | InvokeEndpoint string string bytes
  | DeleteJob string
  | DeleteTrigger string
  | DeleteWorkflow string
  | DeleteEndpoint string

text \<open>
  The state of the notebook between cells: the variable \<^verbatim>\<open>response\<close> (\<open>None\<close> while it
  is unbound) and the log of calls made so far. A response is modelled by its top-level
  string entries.
\<close>

record state =
  response :: "dict option"
  log :: "event list"

definition call :: "event \<Rightarrow> state \<Rightarrow> state" where
  "call ev s = s\<lparr>log := log s @ [ev]\<rparr>"

definition assign_response :: "dict \<Rightarrow> state \<Rightarrow> state" where
  "assign_response d s = s\<lparr>response := Some d\<rparr>"

subsection \<open>Cell 5: identifiers and names\<close>

definition id' :: "'f env \<Rightarrow> string" where
  "id' e = uuid4_hex e"

definition region :: "'f env \<Rightarrow> string" where
  "region e = region_name e"

definition bucket :: "'f env \<Rightarrow> string" where
  "bucket e = default_bucket e"

definition sagemaker_execution_role :: "'f env \<Rightarrow> string" where
  "sagemaker_execution_role e = get_execution_role e"

definition glue_job_prefix :: string where
  "glue_job_prefix = ''customer-churn-etl''"

definition glue_job_name :: "'f env \<Rightarrow> string" where
  "glue_job_name e = glue_job_prefix @ ''-'' @ id' e"

definition query_function_prefix :: string where
  "query_function_prefix = ''query-evaluation-result''"

definition query_function_name :: "'f env \<Rightarrow> string" where
  "query_function_name e = query_function_prefix @ ''-'' @ id' e"

definition timestamp_suffix :: "'f env \<Rightarrow> string" where
  "timestamp_suffix e =
     str_nat (now_month e) @ ''-'' @ str_nat (now_day e) @ ''-'' @
     str_nat (now_hour e) @ ''-'' @ str_nat (now_minute e)"

definition endpoint_name :: "'f env \<Rightarrow> string" where
  "endpoint_name e = ''gw-customer-churn-endpoint-'' @ timestamp_suffix e"

definition prefix :: string where
  "prefix = ''sagemaker/DEMO-xgboost-customer-churn''"

subsection \<open>Cells 7 to 11: role, data locations, upload of the dataset\<close>

definition glue_role_name :: string where
  "glue_role_name = ''AWS-Glue-S3-SageMaker-Access''"

definition glue_role_arn :: "'f env \<Rightarrow> string" where
  "glue_role_arn e = create_glue_role e glue_role_name (bucket e)"

definition cell_7 :: "'f env \<Rightarrow> state \<Rightarrow> state" where
  "cell_7 e s = call (CreateGlueRole glue_role_name (bucket e)) s"

definition train_prefix :: string where
  "train_prefix = ''train''"

definition val_prefix :: string where
  "val_prefix = ''validation''"

definition test_prefix :: string where
  "test_prefix = ''test''"

definition raw_data :: "'f env \<Rightarrow> string" where
  "raw_data e = ''s3://'' @ bucket e @ ''/'' @ prefix @ ''/input''"

definition processed_data :: "'f env \<Rightarrow> string" where
  "processed_data e = ''s3://'' @ bucket e @ ''/'' @ prefix @ ''/processed''"

definition train_data :: "'f env \<Rightarrow> string" where
  "train_data e = processed_data e @ ''/'' @ train_prefix @ ''/''"

definition validation_data :: "'f env \<Rightarrow> string" where
  "validation_data e = processed_data e @ ''/'' @ val_prefix @ ''/''"

definition test_data :: "'f env \<Rightarrow> string" where
  "test_data e = processed_data e @ ''/'' @ test_prefix @ ''/''"

definition cell_11 :: "'f env \<Rightarrow> state \<Rightarrow> state" where
  "cell_11 e s = call (S3Upload ''../data/churn_processed.csv'' (raw_data e)) s"

subsection \<open>Cell 16: the workflow\<close>

definition glue_workflow_name :: "'f env \<Rightarrow> string" where
  "glue_workflow_name e = ''CustomerChurnMLWorkflow-'' @ id' e"

definition cell_16 :: "'f env \<Rightarrow> state \<Rightarrow> state" where
  "cell_16 e s =
     assign_response [(''Name'', glue_workflow_name e)]
       (call (CreateWorkflow (glue_workflow_name e)
                ''AWS Glue workflow to process data and create training jobs'') s)"

subsection \<open>Cells 18 and 19: the two jobs\<close>

definition scripts_uri :: "'f env \<Rightarrow> string" where
  "scripts_uri e = ''s3://'' @ bucket e @ ''/'' @ prefix @ ''/glue/scripts''"

definition data_processing_script_path :: "'f env \<Rightarrow> string" where
  "data_processing_script_path e = s3_upload e ''./code/glue_preprocessing.py'' (scripts_uri e)"

definition data_processing_job_name :: "'f env \<Rightarrow> string" where
  "data_processing_job_name e = ''DataProcessingJob-'' @ id' e"

definition data_processing_job :: "'f env \<Rightarrow> job" where
  "data_processing_job e =
     \<lparr> job_Name = data_processing_job_name e,
       job_Description = ''Preparing data for SageMaker training'',
       job_Role = glue_role_arn e,
       job_MaxConcurrentRuns = 2,
       job_Command =
         [(''Name'', ''glueetl''), (''ScriptLocation'', data_processing_script_path e)],
       job_DefaultArguments =
         [(''--job-bookmark-option'', ''job-bookmark-enable''),
          (''--enable-metrics'', ''''),
          (''--additional-python-modules'', ''pyarrow==2,awswrangler==2.9.0,fsspec==0.7.4'')],
       job_MaxRetries = 0,
       job_Timeout = 60,
       job_MaxCapacity = 10,
       job_GlueVersion = ''2.0'' \<rparr>"

definition cell_18 :: "'f env \<Rightarrow> state \<Rightarrow> state" where
  "cell_18 e s =
     assign_response [(''Name'', data_processing_job_name e)]
       (call (CreateJob (data_processing_job e))
         (call (S3Upload ''./code/glue_preprocessing.py'' (scripts_uri e)) s))"

definition model_training_deployment_script_path :: "'f env \<Rightarrow> string" where
  "model_training_deployment_script_path e =
     s3_upload e ''./code/model_training_deployment.py'' (scripts_uri e)"

definition model_training_deployment_job_name :: "'f env \<Rightarrow> string" where
  "model_training_deployment_job_name e = ''ModelTrainingDeploymentJob-'' @ id' e"

definition model_training_deployment_job :: "'f env \<Rightarrow> job" where
  "model_training_deployment_job e =
     \<lparr> job_Name = model_training_deployment_job_name e,
       job_Description = ''Model training and deployment'',
       job_Role = glue_role_arn e,
       job_MaxConcurrentRuns = 2,
       job_Command =
         [(''Name'', ''pythonshell''),
          (''ScriptLocation'', model_training_deployment_script_path e),
          (''PythonVersion'', ''3'')],
       job_DefaultArguments =
         [(''--job-bookmark-option'', ''job-bookmark-enable''),
          (''--enable-metrics'', '''')],
       job_MaxRetries = 0,
       job_Timeout = 60,
       job_MaxCapacity = 1,
       job_GlueVersion = ''1.0'' \<rparr>"

definition cell_19 :: "'f env \<Rightarrow> state \<Rightarrow> state" where
  "cell_19 e s =
     assign_response [(''Name'', model_training_deployment_job_name e)]
       (call (CreateJob (model_training_deployment_job e))
         (call (S3Upload ''./code/model_training_deployment.py'' (scripts_uri e)) s))"

subsection \<open>Cell 20: output path and training image\<close>

definition model_output_path :: "'f env \<Rightarrow> string" where
  "model_output_path e = ''s3://'' @ bucket e @ ''/'' @ prefix @ ''/output''"

definition image_uri :: "'f env \<Rightarrow> string" where
  "image_uri e = image_uris_retrieve e ''xgboost'' (region e) ''1.0-1'' ''py3''"

subsection \<open>Cells 22 and 23: the two triggers\<close>

definition data_processing_trigger_name :: "'f env \<Rightarrow> string" where
  "data_processing_trigger_name e = ''TriggerDataProcessingJob-'' @ id' e"

definition data_processing_trigger :: "'f env \<Rightarrow> trigger" where
  "data_processing_trigger e =
     \<lparr> trg_Name = data_processing_trigger_name e,
       trg_Description = ''Triggering Data Processing Job'',
       trg_Type = ''ON_DEMAND'',
       trg_WorkflowName = glue_workflow_name e,
       trg_StartOnCreation = None,
       trg_Conditions = None,
       trg_Actions =
         [\<lparr> act_JobName = data_processing_job_name e,
            act_Arguments =
              [(''--INPUT_DIR'', raw_data e), (''--PROCESSED_DIR'', processed_data e)] \<rparr>] \<rparr>"

definition cell_22 :: "'f env \<Rightarrow> state \<Rightarrow> state" where
  "cell_22 e s =
     assign_response [(''Name'', data_processing_trigger_name e)]
       (call (CreateTrigger (data_processing_trigger e)) s)"

definition model_train_deploy_trigger_name :: "'f env \<Rightarrow> string" where
  "model_train_deploy_trigger_name e = ''TriggerModelTrainingDeploymentJob-'' @ id' e"

definition model_train_deploy_trigger :: "'f env \<Rightarrow> trigger" where
  "model_train_deploy_trigger e =
     \<lparr> trg_Name = model_train_deploy_trigger_name e,
       trg_Description = ''Triggering Model Training Deployment Job'',
       trg_Type = ''CONDITIONAL'',
       trg_WorkflowName = glue_workflow_name e,
       trg_StartOnCreation = Some True,
       trg_Conditions =
         Some [\<lparr> cond_LogicalOperator = ''EQUALS'',
                 cond_JobName = data_processing_job_name e,
                 cond_State = ''SUCCEEDED'' \<rparr>],
       trg_Actions =
         [\<lparr> act_JobName = model_training_deployment_job_name e,
            act_Arguments =
              [(''--train_input_path'', processed_data e),
               (''--model_output_path'', model_output_path e),
               (''--algorithm_image'', image_uri e),
               (''--role_arn'', sagemaker_execution_role e),
               (''--endpoint_name'', endpoint_name e)] \<rparr>] \<rparr>"

definition cell_23 :: "'f env \<Rightarrow> state \<Rightarrow> state" where
  "cell_23 e s =
     assign_response [(''Name'', model_train_deploy_trigger_name e)]
       (call (CreateTrigger (model_train_deploy_trigger e)) s)"

subsection \<open>Cell 26: starting the run\<close>

definition cell_26 :: "'f env \<Rightarrow> state \<Rightarrow> state" where
  "cell_26 e s =
     assign_response [(''RunId'', start_workflow_run_id e)]
       (call (StartWorkflowRun (glue_workflow_name e)) s)"

subsection \<open>Cell 27: polling the run\<close>

text \<open>
  The \<open>k\<close>-th call of \<^verbatim>\<open>get_workflow_run\<close> (counted from 0) answers with the status
  \<open>workflow_run_status e k\<close>. A cell that raises stops with the error and the state
  reached.
\<close>

type_synonym outcome = "(py_error \<times> state) + state"

definition check_workflow_state ::
  "'f env \<Rightarrow> nat \<Rightarrow> string \<Rightarrow> string \<Rightarrow> state \<Rightarrow> string \<times> state" where
  "check_workflow_state e k workflow_name run_id s =
     (workflow_run_status e k, call (GetWorkflowRun workflow_name run_id True) s)"

definition terminal_statuses :: "string list" where
  "terminal_statuses = [''COMPLETED'', ''STOPPED'', ''ERROR'']"

text \<open>
  One pass through the body of \<^verbatim>\<open>while True\<close>; the flag is \<open>True\<close> when the pass ends
  in \<^verbatim>\<open>break\<close>.
\<close>

definition poll_iteration :: "'f env \<Rightarrow> nat \<Rightarrow> state \<Rightarrow> (py_error \<times> state) + (bool \<times> state)" where
  "poll_iteration e k s =
     (case response s of
        None \<Rightarrow> Inl (NameError, s)
      | Some d \<Rightarrow>
          (case getitem d ''RunId'' of
             Inl err \<Rightarrow> Inl (err, s)
           | Inr run_id \<Rightarrow>
               (let (workflow_status, s1) = check_workflow_state e k (glue_workflow_name e) run_id s
                in if workflow_status \<in> set terminal_statuses
                   then Inr (True, call (Print workflow_status) s1)
                   else Inr (False, call (Sleep 30) (call (Print ''.'') s1)))))"

partial_function (option) polling_loop :: "'f env \<Rightarrow> nat \<Rightarrow> state \<Rightarrow> outcome option" where
  "polling_loop e k s =
     (case poll_iteration e k s of
        Inl err \<Rightarrow> Some (Inl err)
      | Inr (stop, s') \<Rightarrow> if stop then Some (Inr s') else polling_loop e (Suc k) s')"

declare polling_loop.simps [code]

definition cell_27 :: "'f env \<Rightarrow> state \<Rightarrow> outcome option" where
  "cell_27 e s = polling_loop e 0 (call (Print ''Checking workflow state:'') s)"

subsection \<open>Cells 29 to 32: evaluating the endpoint on the test data\<close>

definition test_data_file :: string where
  "test_data_file = ''test.csv''"

definition cell_29 :: "'f env \<Rightarrow> state \<Rightarrow> state" where
  "cell_29 e s = call (S3Download (test_data e @ test_data_file) ''data'') s"

text \<open>
  A dataframe: the column labels, the row labels and the rows. A cell is the text, as
  code points, that \<^verbatim>\<open>to_csv\<close> writes for its value (how a number is formatted and when
  a field is quoted is left to pandas). The environment's \<open>test_csv\<close> is the table pandas
  parses from the downloaded file, one list of cells per row, every row as long as the
  first; a cell that a row lacks reads as the empty text.
\<close>

record dataframe =
  df_columns :: "nat list"
  df_index :: "nat list"
  df_rows :: "unicode list list"

text \<open>\<^verbatim>\<open>pd.read_csv(path, header=None)\<close>: columns and rows are numbered from 0.\<close>

definition read_csv :: "unicode list list \<Rightarrow> py_error + dataframe" where
  "read_csv table =
     (case table of
        [] \<Rightarrow> Inl EmptyDataError
      | r # _ \<Rightarrow>
          Inr \<lparr> df_columns = [0..<length r], df_index = [0..<length table], df_rows = table \<rparr>)"

definition df :: "'f env \<Rightarrow> py_error + dataframe" where
  "df e = read_csv (test_csv e)"

definition position :: "nat \<Rightarrow> nat list \<Rightarrow> nat" where
  "position c cols = length (takeWhile (\<lambda>c'. c' \<noteq> c) cols)"

definition cell_of :: "dataframe \<Rightarrow> unicode list \<Rightarrow> nat \<Rightarrow> unicode" where
  "cell_of d r c =
     (let p = position c (df_columns d) in if p < length r then r ! p else [])"

text \<open>\<^verbatim>\<open>d[labels]\<close> with a list of labels: the dataframe of these columns.\<close>

definition getitem_columns :: "dataframe \<Rightarrow> nat list \<Rightarrow> py_error + dataframe" where
  "getitem_columns d labels =
     (if list_all (\<lambda>c. c \<in> set (df_columns d)) labels
      then Inr \<lparr> df_columns = labels, df_index = df_index d,
                 df_rows = map (\<lambda>r. map (cell_of d r) labels) (df_rows d) \<rparr>
      else Inl KeyError)"

text \<open>\<^verbatim>\<open>d[label]\<close> with one label: the cells of that column.\<close>

definition getitem_column :: "dataframe \<Rightarrow> nat \<Rightarrow> py_error + unicode list" where
  "getitem_column d c =
     (if c \<in> set (df_columns d) then Inr (map (\<lambda>r. cell_of d r c) (df_rows d))
      else Inl KeyError)"

text \<open>\<^verbatim>\<open>sep.join(xs)\<close>.\<close>

fun join :: "'a list \<Rightarrow> 'a list list \<Rightarrow> 'a list" where
  "join sep [] = []"
| "join sep [x] = x"
| "join sep (x # y # ys) = x @ sep @ join sep (y # ys)"

definition newline :: string where
  "newline = [CHR 0x0A]"

text \<open>
  \<^verbatim>\<open>d.to_csv(header=..., index=...)\<close>: an optional line of column labels, then one line
  per row, with the row label in front when \<open>index\<close> is set.
\<close>

definition csv_lines :: "bool \<Rightarrow> bool \<Rightarrow> dataframe \<Rightarrow> unicode list" where
  "csv_lines header index d =
     (if header
      then [join (ascii '','')
              ((if index then [[]] else []) @ map (\<lambda>c. ascii (str_nat c)) (df_columns d))]
      else []) @
     map (\<lambda>(i, r). join (ascii '','') ((if index then [ascii (str_nat i)] else []) @ r))
       (zip (df_index d) (df_rows d))"

definition to_csv :: "bool \<Rightarrow> bool \<Rightarrow> dataframe \<Rightarrow> unicode" where
  "to_csv header index d =
     concat (map (\<lambda>l. l @ ascii newline) (csv_lines header index d))"

text \<open>
  \<^verbatim>\<open>str.encode("utf-8")\<close>. \<open>utf8_bytes\<close> gives the values of the bytes of one code point:
  one byte below U+0080, two below U+0800, three below U+10000, four up to U+10FFFF. A
  surrogate (U+D800 to U+DFFF) cannot be encoded, Python raises UnicodeEncodeError; no
  \<^verbatim>\<open>str\<close> holds a code point beyond U+10FFFF.
\<close>

definition utf8_bytes :: "nat \<Rightarrow> nat list option" where
  "utf8_bytes n =
     (if n < 0x80 then Some [n]
      else if n < 0x800 then Some [0xC0 + n div 64, 0x80 + n mod 64]
      else if 0xD800 \<le> n \<and> n \<le> 0xDFFF then None
      else if n < 0x10000
        then Some [0xE0 + n div 4096, 0x80 + n div 64 mod 64, 0x80 + n mod 64]
      else if n < 0x110000
        then Some [0xF0 + n div 262144, 0x80 + n div 4096 mod 64,
                   0x80 + n div 64 mod 64, 0x80 + n mod 64]
      else None)"

fun encode_utf8 :: "unicode \<Rightarrow> py_error + bytes" where
  "encode_utf8 [] = Inr []"
| "encode_utf8 (c # cs) =
     (case utf8_bytes c of
        None \<Rightarrow> Inl UnicodeEncodeError
      | Some bs \<Rightarrow>
          (case encode_utf8 cs of
             Inl err \<Rightarrow> Inl err
           | Inr rest \<Rightarrow> Inr (map of_nat bs @ rest)))"

text \<open>\<^verbatim>\<open>s.split(sep)\<close> for a separator of one character.\<close>

fun str_split :: "char \<Rightarrow> string \<Rightarrow> string list" where
  "str_split sep [] = [[]]"
| "str_split sep (c # cs) =
     (if c = sep then [] # str_split sep cs
      else (case str_split sep cs of
              [] \<Rightarrow> [[c]]
            | p # ps \<Rightarrow> (c # p) # ps))"

text \<open>\<^verbatim>\<open>np.asarray(pieces, dtype=float)\<close>: every piece converted, ValueError if one is not a float.\<close>

fun asarray_float :: "(string \<Rightarrow> 'f option) \<Rightarrow> string list \<Rightarrow> py_error + 'f list" where
  "asarray_float conv [] = Inr []"
| "asarray_float conv (p # ps) =
     (case conv p of
        None \<Rightarrow> Inl ValueError
      | Some x \<Rightarrow>
          (case asarray_float conv ps of
             Inl err \<Rightarrow> Inl err
           | Inr xs \<Rightarrow> Inr (x # xs)))"

definition payload_frame :: "'f env \<Rightarrow> py_error + dataframe" where
  "payload_frame e =
     (case df e of
        Inl err \<Rightarrow> Inl err
      | Inr d \<Rightarrow> getitem_columns d (drop 1 (df_columns d)))"

definition payload :: "'f env \<Rightarrow> py_error + bytes" where
  "payload e =
     (case payload_frame e of
        Inl err \<Rightarrow> Inl err
      | Inr p \<Rightarrow> encode_utf8 (to_csv False False p))"

definition actuals :: "'f env \<Rightarrow> py_error + unicode list" where
  "actuals e = (case df e of Inl err \<Rightarrow> Inl err | Inr d \<Rightarrow> getitem_column d 0)"

definition predictions_of :: "'f env \<Rightarrow> string \<Rightarrow> py_error + 'f list" where
  "predictions_of e result = asarray_float (to_float e) (str_split CHR '','' result)"

text \<open>
  Cell 31 reads the file; when it raises, cell 32 makes no call. Cell 32 makes none
  either when the selection of the columns or the encoding raises.
\<close>

definition cell_31 :: "'f env \<Rightarrow> state \<Rightarrow> outcome" where
  "cell_31 e s = (case df e of Inl err \<Rightarrow> Inl (err, s) | Inr d \<Rightarrow> Inr s)"

definition cell_32 :: "'f env \<Rightarrow> state \<Rightarrow> outcome" where
  "cell_32 e s =
     (case payload e of
        Inl err \<Rightarrow> Inl (err, s)
      | Inr body \<Rightarrow>
          (let s1 = assign_response [(''Body'', endpoint_body e)]
                      (call (InvokeEndpoint (endpoint_name e) ''text/csv'' body) s)
           in case response s1 of
                None \<Rightarrow> Inl (NameError, s1)
              | Some d \<Rightarrow>
                  (case getitem d ''Body'' of
                     Inl err \<Rightarrow> Inl (err, s1)
                   | Inr result \<Rightarrow>
                       (case predictions_of e result of
                          Inl err \<Rightarrow> Inl (err, s1)
                        | Inr predictions \<Rightarrow> Inr s1))))"

subsection \<open>Cells 36 and 37: clean up\<close>

definition cell_36 :: "'f env \<Rightarrow> state \<Rightarrow> state" where
  "cell_36 e s =
     (let s1 = foldl (\<lambda>s' job_name. call (DeleteJob job_name) s') s
                 [data_processing_job_name e, model_training_deployment_job_name e];
          s2 = foldl (\<lambda>s' trigger_name. call (DeleteTrigger trigger_name) s') s1
                 [data_processing_trigger_name e, model_train_deploy_trigger_name e]
      in assign_response [(''Name'', glue_workflow_name e)]
           (call (DeleteWorkflow (glue_workflow_name e)) s2))"

definition cell_37 :: "'f env \<Rightarrow> state \<Rightarrow> state" where
  "cell_37 e s = call (DeleteEndpoint (endpoint_name e)) s"

subsection \<open>The notebook\<close>

definition initial :: state where
  "initial = \<lparr> response = None, log = [] \<rparr>"

text \<open>Cells 7 to 23: everything created before the run is started.\<close>

definition build :: "'f env \<Rightarrow> state" where
  "build e =
     cell_23 e (cell_22 e (cell_19 e (cell_18 e (cell_16 e (cell_11 e (cell_7 e initial))))))"

definition evaluate :: "'f env \<Rightarrow> state \<Rightarrow> outcome" where
  "evaluate e s =
     (case cell_31 e (cell_29 e s) of
        Inl err \<Rightarrow> Inl err
      | Inr s1 \<Rightarrow> cell_32 e s1)"

definition clean_up :: "'f env \<Rightarrow> state \<Rightarrow> state" where
  "clean_up e s = cell_37 e (cell_36 e s)"

text \<open>
  The whole notebook: \<open>None\<close> when the polling loop never ends, \<open>Some (Inl (err, s))\<close>
  when a cell raises \<open>err\<close> in state \<open>s\<close>, \<open>Some (Inr s)\<close> when every cell has run.
\<close>

definition notebook :: "'f env \<Rightarrow> outcome option" where
  "notebook e =
     (case cell_27 e (cell_26 e (build e)) of
        None \<Rightarrow> None
      | Some (Inl err) \<Rightarrow> Some (Inl err)
      | Some (Inr s) \<Rightarrow>
          (case evaluate e s of
             Inl err \<Rightarrow> Some (Inl err)
           | Inr s1 \<Rightarrow> Some (Inr (clean_up e s1))))"

section \<open>Vocabulary of the statements\<close>

text \<open>
  The state in which the loop runs holds the response of \<^verbatim>\<open>start_workflow_run\<close>; a pass
  that does not end the loop logs \<open>waiting\<close>, the last pass logs \<open>finishing\<close>.
\<close>

definition has_run_id :: "'f env \<Rightarrow> state \<Rightarrow> bool" where
  "has_run_id e s = (response s = Some [(''RunId'', start_workflow_run_id e)])"

definition waiting :: "'f env \<Rightarrow> event list" where
  "waiting e =
     [GetWorkflowRun (glue_workflow_name e) (start_workflow_run_id e) True, Print ''.'', Sleep 30]"

definition finishing :: "'f env \<Rightarrow> nat \<Rightarrow> event list" where
  "finishing e n =
     [GetWorkflowRun (glue_workflow_name e) (start_workflow_run_id e) True,
      Print (workflow_run_status e n)]"

definition terminal :: "'f env \<Rightarrow> nat \<Rightarrow> bool" where
  "terminal e n = (workflow_run_status e n \<in> set terminal_statuses)"

definition first_terminal :: "'f env \<Rightarrow> nat \<Rightarrow> bool" where
  "first_terminal e m = (terminal e m \<and> list_all (\<lambda>i. \<not> terminal e i) [0..<m])"

definition build_log :: "'f env \<Rightarrow> event list" where
  "build_log e =
     [CreateGlueRole glue_role_name (bucket e),
      S3Upload ''../data/churn_processed.csv'' (raw_data e),
      CreateWorkflow (glue_workflow_name e)
        ''AWS Glue workflow to process data and create training jobs'',
      S3Upload ''./code/glue_preprocessing.py'' (scripts_uri e),
      CreateJob (data_processing_job e),
      S3Upload ''./code/model_training_deployment.py'' (scripts_uri e),
      CreateJob (model_training_deployment_job e),
      CreateTrigger (data_processing_trigger e),
      CreateTrigger (model_train_deploy_trigger e)]"

definition run_log :: "'f env \<Rightarrow> nat \<Rightarrow> event list" where
  "run_log e m =
     [StartWorkflowRun (glue_workflow_name e), Print ''Checking workflow state:''] @
     concat (replicate m (waiting e)) @ finishing e m"

definition download_log :: "'f env \<Rightarrow> event list" where
  "download_log e = [S3Download (test_data e @ test_data_file) ''data'']"

definition invoke_log :: "'f env \<Rightarrow> bytes \<Rightarrow> event list" where
  "invoke_log e body = [InvokeEndpoint (endpoint_name e) ''text/csv'' body]"

definition clean_up_log :: "'f env \<Rightarrow> event list" where
  "clean_up_log e =
     [DeleteJob (data_processing_job_name e),
      DeleteJob (model_training_deployment_job_name e),
      DeleteTrigger (data_processing_trigger_name e),
      DeleteTrigger (model_train_deploy_trigger_name e),
      DeleteWorkflow (glue_workflow_name e),
      DeleteEndpoint (endpoint_name e)]"

definition state_of :: "outcome \<Rightarrow> state" where
  "state_of r = (case r of Inl (err, s) \<Rightarrow> s | Inr s \<Rightarrow> s)"

definition log_of :: "outcome \<Rightarrow> event list" where
  "log_of r = log (state_of r)"

subsection \<open>Two concrete environments\<close>

definition basename :: "string \<Rightarrow> string" where
  "basename p = last (str_split CHR ''/'' p)"

text \<open>A session whose run is reported RUNNING twice and COMPLETED at the third poll.\<close>

definition example_env :: "rat env" where
  "example_env =
     \<lparr> uuid4_hex = ''0f8fad5bd9cb469fa16570867728950e'',
       region_name = ''us-east-1'',
       default_bucket = ''sagemaker-us-east-1-123456789012'',
       get_execution_role = ''arn:aws:iam::123456789012:role/SageMakerRole'',
       now_month = 11, now_day = 3, now_hour = 9, now_minute = 5,
       create_glue_role = (\<lambda>name b. ''arn:aws:iam::123456789012:role/'' @ name),
       s3_upload = (\<lambda>local_path uri. uri @ ''/'' @ basename local_path),
       image_uris_retrieve = (\<lambda>framework reg version py. framework @ '':'' @ version),
       start_workflow_run_id = ''wr_1'',
       workflow_run_status = (\<lambda>k. if k < 2 then ''RUNNING'' else ''COMPLETED''),
       test_csv = [[ascii ''1'', ascii ''0.5'', ascii ''7''],
                   [ascii ''0'', ascii ''0.25'', ascii ''3'']],
       endpoint_body = ''0.9,0.2'',
       to_float = map_of [(''0.9'', 9 / 10), (''0.2'', 1 / 5)] \<rparr>"

text \<open>The same session with a run that is reported RUNNING at every poll.\<close>

definition stalled_env :: "rat env" where
  "stalled_env = example_env\<lparr>workflow_run_status := (\<lambda>k. ''RUNNING'')\<rparr>"

text \<open>A second session, started in the same minute as \<open>example_env\<close>.\<close>

definition other_env :: "rat env" where
  "other_env = example_env\<lparr>uuid4_hex := ''7c9e6679742540de944be07fc1f90ae7''\<rparr>"

text \<open>The session of \<open>example_env\<close> with a test table of one row, whose second cell is U+00E9.\<close>

definition accented_env :: "rat env" where
  "accented_env = example_env\<lparr>test_csv := [[ascii ''1'', [0xE9]]]\<rparr>"

text \<open>The request body for the test table of \<open>example_env\<close>: the two lines 0.5,7 and 0.25,3.\<close>

definition example_body :: bytes where
  "example_body = [48, 46, 53, 44, 55, 10, 48, 46, 50, 53, 44, 51, 10]"

text \<open>The state in which the session of \<open>example_env\<close> ends.\<close>

definition example_final :: state where
  "example_final =
     \<lparr> response = Some [(''Name'', glue_workflow_name example_env)],
       log = build_log example_env @ run_log example_env 2 @ download_log example_env @
             invoke_log example_env example_body @ clean_up_log example_env \<rparr>"

subsection \<open>Kinds of calls\<close>

definition is_upload :: "event \<Rightarrow> bool" where
  "is_upload ev = (case ev of S3Upload local_path uri \<Rightarrow> True | _ \<Rightarrow> False)"

definition is_create :: "event \<Rightarrow> bool" where
  "is_create ev =
     (case ev of
        CreateWorkflow name description \<Rightarrow> True
      | CreateJob j \<Rightarrow> True
      | CreateTrigger t \<Rightarrow> True
      | _ \<Rightarrow> False)"

definition is_start :: "event \<Rightarrow> bool" where
  "is_start ev = (case ev of StartWorkflowRun name \<Rightarrow> True | _ \<Rightarrow> False)"

definition is_poll :: "event \<Rightarrow> bool" where
  "is_poll ev = (case ev of GetWorkflowRun workflow_name run_id graph \<Rightarrow> True | _ \<Rightarrow> False)"

definition is_terminal_print :: "event \<Rightarrow> bool" where
  "is_terminal_print ev = (case ev of Print text \<Rightarrow> text \<in> set terminal_statuses | _ \<Rightarrow> False)"

definition is_invoke :: "event \<Rightarrow> bool" where
  "is_invoke ev = (case ev of InvokeEndpoint name content_type body \<Rightarrow> True | _ \<Rightarrow> False)"

definition is_delete :: "event \<Rightarrow> bool" where
  "is_delete ev =
     (case ev of
        DeleteJob name \<Rightarrow> True
      | DeleteTrigger name \<Rightarrow> True
      | DeleteWorkflow name \<Rightarrow> True
      | DeleteEndpoint name \<Rightarrow> True
      | _ \<Rightarrow> False)"

subsection \<open>What a log creates and deletes\<close>

definition created_workflows :: "event list \<Rightarrow> string list" where
  "created_workflows tr =
     concat (map (\<lambda>ev. case ev of CreateWorkflow name description \<Rightarrow> [name] | _ \<Rightarrow> []) tr)"

definition created_jobs :: "event list \<Rightarrow> job list" where
  "created_jobs tr = concat (map (\<lambda>ev. case ev of CreateJob j \<Rightarrow> [j] | _ \<Rightarrow> []) tr)"

definition created_triggers :: "event list \<Rightarrow> trigger list" where
  "created_triggers tr = concat (map (\<lambda>ev. case ev of CreateTrigger t \<Rightarrow> [t] | _ \<Rightarrow> []) tr)"

definition deleted_jobs :: "event list \<Rightarrow> string list" where
  "deleted_jobs tr = concat (map (\<lambda>ev. case ev of DeleteJob name \<Rightarrow> [name] | _ \<Rightarrow> []) tr)"

definition deleted_triggers :: "event list \<Rightarrow> string list" where
  "deleted_triggers tr =
     concat (map (\<lambda>ev. case ev of DeleteTrigger name \<Rightarrow> [name] | _ \<Rightarrow> []) tr)"

definition deleted_workflows :: "event list \<Rightarrow> string list" where
  "deleted_workflows tr =
     concat (map (\<lambda>ev. case ev of DeleteWorkflow name \<Rightarrow> [name] | _ \<Rightarrow> []) tr)"

definition deleted_endpoints :: "event list \<Rightarrow> string list" where
  "deleted_endpoints tr =
     concat (map (\<lambda>ev. case ev of DeleteEndpoint name \<Rightarrow> [name] | _ \<Rightarrow> []) tr)"

text \<open>The endpoint names handed to jobs as their \<^verbatim>\<open>--endpoint_name\<close> argument.\<close>

definition endpoint_argument :: "action \<Rightarrow> string list" where
  "endpoint_argument a =
     (case map_of (act_Arguments a) ''--endpoint_name'' of None \<Rightarrow> [] | Some name \<Rightarrow> [name])"

definition handed_endpoints :: "event list \<Rightarrow> string list" where
  "handed_endpoints tr =
     concat (map (\<lambda>ev. case ev of
                          CreateTrigger t \<Rightarrow> concat (map endpoint_argument (trg_Actions t))
                        | _ \<Rightarrow> []) tr)"

subsection \<open>Order of calls\<close>

text \<open>
  \<open>precedes P Q tr\<close>: in \<open>tr\<close> every call of kind \<open>P\<close> comes before every call of kind
  \<open>Q\<close>, that is, from a \<open>Q\<close> call on there is no \<open>P\<close> call.
\<close>

fun precedes :: "(event \<Rightarrow> bool) \<Rightarrow> (event \<Rightarrow> bool) \<Rightarrow> event list \<Rightarrow> bool" where
  "precedes P Q [] = True"
| "precedes P Q (ev # tr) =
     ((if Q ev then \<not> P ev \<and> \<not> list_ex P tr else True) \<and> precedes P Q tr)"


subsection \<open>Resources in the account\<close>

datatype resource =
    IamRole string
  | S3Object string
  | GlueWorkflow string
  | GlueJob string
  | GlueTrigger string

text \<open>
  The resources in the account after a call, from those before it: a creating call adds
  the resource it names, a deleting call removes the resource of that name, every other
  call leaves them as they are. The endpoint is deployed by the second job while the
  workflow runs, not by a call of the notebook, and is not listed.
\<close>

definition after_call :: "'f env \<Rightarrow> resource list \<Rightarrow> event \<Rightarrow> resource list" where
  "after_call e rs ev =
     (case ev of
        CreateGlueRole name b \<Rightarrow> IamRole name # rs
      | S3Upload local_path uri \<Rightarrow> S3Object (s3_upload e local_path uri) # rs
      | CreateWorkflow name description \<Rightarrow> GlueWorkflow name # rs
      | CreateJob j \<Rightarrow> GlueJob (job_Name j) # rs
      | CreateTrigger t \<Rightarrow> GlueTrigger (trg_Name t) # rs
      | DeleteJob name \<Rightarrow> removeAll (GlueJob name) rs
      | DeleteTrigger name \<Rightarrow> removeAll (GlueTrigger name) rs
      | DeleteWorkflow name \<Rightarrow> removeAll (GlueWorkflow name) rs
      | _ \<Rightarrow> rs)"

definition left_behind :: "'f env \<Rightarrow> event list \<Rightarrow> resource list" where
  "left_behind e tr = foldl (after_call e) [] tr"

definition is_glue :: "resource \<Rightarrow> bool" where
  "is_glue r =
     (case r of GlueWorkflow name \<Rightarrow> True | GlueJob name \<Rightarrow> True | GlueTrigger name \<Rightarrow> True
      | _ \<Rightarrow> False)"

subsection \<open>The log of a complete session\<close>

definition full_log :: "'f env \<Rightarrow> nat \<Rightarrow> bytes \<Rightarrow> event list" where
  "full_log e m body =
     build_log e @ run_log e m @ download_log e @ invoke_log e body @ clean_up_log e"

text \<open>The state in which the loop ends when the first terminal status comes at poll \<open>m\<close>.\<close>

definition polled :: "'f env \<Rightarrow> nat \<Rightarrow> state" where
  "polled e m = \<lparr> response = Some [(''RunId'', start_workflow_run_id e)],
                  log = build_log e @ run_log e m \<rparr>"

subsection \<open>UTF-8 as the standard defines it\<close>

text \<open>
  The reference the encoder is compared with: the well-formed byte sequences of the
  Unicode standard (RFC 3629) and the code point each stands for. A first byte 00 to 7F
  stands alone; C2 to DF is followed by one byte 80 to BF; E0 to EF by two and F0 to F4
  by three such bytes, where the second byte is A0 to BF after E0, 80 to 9F after ED,
  90 to BF after F0 and 80 to 8F after F4. Everything else is ill-formed, so overlong
  forms, surrogates and code points beyond U+10FFFF have no encoding. \<open>decode_utf8\<close>
  gives the code points of a well-formed byte string and \<open>None\<close> for any other.
\<close>

definition continuation :: "nat \<Rightarrow> bool" where
  "continuation b = (0x80 \<le> b \<and> b \<le> 0xBF)"

definition second_byte :: "nat \<Rightarrow> nat \<Rightarrow> bool" where
  "second_byte b1 b2 =
     (if b1 = 0xE0 then 0xA0 \<le> b2 \<and> b2 \<le> 0xBF
      else if b1 = 0xED then 0x80 \<le> b2 \<and> b2 \<le> 0x9F
      else if b1 = 0xF0 then 0x90 \<le> b2 \<and> b2 \<le> 0xBF
      else if b1 = 0xF4 then 0x80 \<le> b2 \<and> b2 \<le> 0x8F
      else continuation b2)"

function well_formed_utf8 :: "nat list \<Rightarrow> nat list option" where
  "well_formed_utf8 [] = Some []"
| "well_formed_utf8 (b1 # bs) =
     (if b1 \<le> 0x7F then map_option (Cons b1) (well_formed_utf8 bs)
      else if 0xC2 \<le> b1 \<and> b1 \<le> 0xDF then
        (case bs of
           b2 # r \<Rightarrow>
             if continuation b2
             then map_option (Cons ((b1 - 0xC0) * 64 + (b2 - 0x80))) (well_formed_utf8 r)
             else None
         | _ \<Rightarrow> None)
      else if 0xE0 \<le> b1 \<and> b1 \<le> 0xEF then
        (case bs of
           b2 # b3 # r \<Rightarrow>
             if second_byte b1 b2 \<and> continuation b3
             then map_option
                    (Cons ((b1 - 0xE0) * 4096 + (b2 - 0x80) * 64 + (b3 - 0x80)))
                    (well_formed_utf8 r)
             else None
         | _ \<Rightarrow> None)
      else if 0xF0 \<le> b1 \<and> b1 \<le> 0xF4 then
        (case bs of
           b2 # b3 # b4 # r \<Rightarrow>
             if second_byte b1 b2 \<and> continuation b3 \<and> continuation b4
             then map_option
                    (Cons ((b1 - 0xF0) * 262144 + (b2 - 0x80) * 4096 + (b3 - 0x80) * 64
                           + (b4 - 0x80)))
                    (well_formed_utf8 r)
             else None
         | _ \<Rightarrow> None)
      else None)"
  by pat_completeness simp_all
termination
  by (relation "measure length") simp_all

definition decode_utf8 :: "bytes \<Rightarrow> unicode option" where
  "decode_utf8 bs = well_formed_utf8 (map unat bs)"

section \<open>The polling loop\<close>

lemma poll_iteration_run_id:
  assumes "has_run_id e s"
  shows "poll_iteration e k s =
     Inr (if terminal e k then (True, s\<lparr>log := log s @ finishing e k\<rparr>)
          else (False, s\<lparr>log := log s @ waiting e\<rparr>))"
  using assms
  by (simp add: poll_iteration_def has_run_id_def getitem_def check_workflow_state_def
      call_def terminal_def finishing_def waiting_def)

lemma polling_loop_stop:
  assumes "has_run_id e s" "terminal e k"
  shows "polling_loop e k s = Some (Inr (s\<lparr>log := log s @ finishing e k\<rparr>))"
  using assms by (subst polling_loop.simps) (simp add: poll_iteration_run_id)

lemma polling_loop_wait:
  assumes "has_run_id e s" "\<not> terminal e k"
  shows "polling_loop e k s = polling_loop e (Suc k) (s\<lparr>log := log s @ waiting e\<rparr>)"
  using assms by (subst polling_loop.simps) (simp add: poll_iteration_run_id)

lemma has_run_id_log [simp]: "has_run_id e (s\<lparr>log := l\<rparr>) = has_run_id e s"
  by (simp add: has_run_id_def)

lemma polling_loop_returns:
  assumes "has_run_id e s" "terminal e (k + m)" "\<forall>i<m. \<not> terminal e (k + i)"
  shows "polling_loop e k s =
     Some (Inr (s\<lparr>log := log s @ concat (replicate m (waiting e)) @ finishing e (k + m)\<rparr>))"
  using assms
proof (induction m arbitrary: k s)
  case 0
  then show ?case by (simp add: polling_loop_stop)
next
  case (Suc m)
  from Suc.prems(3) have nt: "\<not> terminal e k" by force
  have later: "\<forall>i<m. \<not> terminal e (Suc k + i)"
    using Suc.prems(3) by (metis add_Suc_shift Suc_less_eq)
  have "polling_loop e k s = polling_loop e (Suc k) (s\<lparr>log := log s @ waiting e\<rparr>)"
    using Suc.prems(1) nt by (rule polling_loop_wait)
  also have "\<dots> = Some (Inr (s\<lparr>log := log s @ waiting e\<rparr>
        \<lparr>log := log (s\<lparr>log := log s @ waiting e\<rparr>) @ concat (replicate m (waiting e)) @ finishing e (Suc k + m)\<rparr>))"
    using Suc.prems(1,2) later by (intro Suc.IH) simp_all
  finally show ?case by simp
qed

lemma polling_loop_some_terminal:
  assumes "polling_loop e k s = Some r"
  shows "has_run_id e s \<longrightarrow> (\<exists>n\<ge>k. terminal e n)"
proof (rule polling_loop.raw_induct
    [where P = "\<lambda>e k s r. has_run_id e s \<longrightarrow> (\<exists>n\<ge>k. terminal e n)", OF _ assms])
  fix loop :: "'a env \<Rightarrow> nat \<Rightarrow> state \<Rightarrow> outcome option" and e k s r
  assume IH: "\<And>e k s r. loop e k s = Some r \<Longrightarrow> has_run_id e s \<longrightarrow> (\<exists>n\<ge>k. terminal e n)"
    and body: "(case poll_iteration e k s of
                  Inl err \<Rightarrow> Some (Inl err)
                | Inr (stop, s') \<Rightarrow> if stop then Some (Inr s') else loop e (Suc k) s') = Some r"
  show "has_run_id e s \<longrightarrow> (\<exists>n\<ge>k. terminal e n)"
  proof
    assume rid: "has_run_id e s"
    show "\<exists>n\<ge>k. terminal e n"
    proof (cases "terminal e k")
      case True
      then show ?thesis by blast
    next
      case False
      with body rid have "loop e (Suc k) (s\<lparr>log := log s @ waiting e\<rparr>) = Some r"
        by (simp add: poll_iteration_run_id)
      then have "has_run_id e (s\<lparr>log := log s @ waiting e\<rparr>) \<longrightarrow> (\<exists>n\<ge>Suc k. terminal e n)"
        by (rule IH)
      then have "\<exists>n\<ge>Suc k. terminal e n" using rid by simp
      then show ?thesis using Suc_leD by blast
    qed
  qed
qed

lemma polling_loop_diverges:
  assumes "has_run_id e s" "\<forall>n\<ge>k. \<not> terminal e n"
  shows "polling_loop e k s = None"
proof (cases "polling_loop e k s")
  case None
  then show ?thesis .
next
  case (Some r)
  then show ?thesis using polling_loop_some_terminal assms by blast
qed

lemma log_build: "log (build e) = build_log e"
  by (simp add: build_def build_log_def cell_7_def cell_11_def cell_16_def cell_18_def
      cell_19_def cell_22_def cell_23_def call_def assign_response_def initial_def)

lemma started: "cell_26 e (build e) =
    \<lparr> response = Some [(''RunId'', start_workflow_run_id e)],
      log = build_log e @ [StartWorkflowRun (glue_workflow_name e)] \<rparr>"
  by (simp add: cell_26_def call_def assign_response_def log_build)

lemma first_terminal_exists:
  assumes "terminal e n"
  shows "\<exists>m\<le>n. first_terminal e m"
proof -
  define m where "m = (LEAST i. terminal e i)"
  have "terminal e m" unfolding m_def using assms by (rule LeastI)
  moreover have "\<not> terminal e i" if "i < m" for i
    using that unfolding m_def by (rule not_less_Least)
  then have "list_all (\<lambda>i. \<not> terminal e i) [0..<m]" by (simp add: list_all_iff)
  moreover have "m \<le> n" unfolding m_def using assms by (rule Least_le)
  ultimately have "m \<le> n \<and> first_terminal e m" by (simp add: first_terminal_def)
  then show ?thesis by blast
qed

lemma first_terminal_before:
  assumes "first_terminal e m" "i < m"
  shows "\<not> terminal e i"
  using assms by (simp add: first_terminal_def list_all_iff)

lemma first_terminal_unique:
  assumes "first_terminal e m" "first_terminal e n"
  shows "m = n"
proof (rule ccontr)
  assume "m \<noteq> n"
  then consider "m < n" | "n < m" by linarith
  then show False
  proof cases
    case 1
    then have "\<not> terminal e m" using assms(2) by (intro first_terminal_before)
    then show False using assms(1) by (simp add: first_terminal_def)
  next
    case 2
    then have "\<not> terminal e n" using assms(1) by (intro first_terminal_before)
    then show False using assms(2) by (simp add: first_terminal_def)
  qed
qed

lemma cell_27_returns:
  assumes "first_terminal e m"
  shows "cell_27 e (cell_26 e (build e)) =
     Some (Inr \<lparr> response = Some [(''RunId'', start_workflow_run_id e)],
                 log = build_log e @ run_log e m \<rparr>)"
proof -
  let ?s = "call (Print ''Checking workflow state:'') (cell_26 e (build e))"
  have rid: "has_run_id e ?s" by (simp add: has_run_id_def call_def started)
  have "polling_loop e 0 ?s =
     Some (Inr (?s\<lparr>log := log ?s @ concat (replicate m (waiting e)) @ finishing e (0 + m)\<rparr>))"
    using rid assms first_terminal_before [OF assms]
    by (intro polling_loop_returns) (simp_all add: first_terminal_def)
  then show ?thesis by (simp add: cell_27_def call_def started run_log_def)
qed

lemma cell_27_diverges:
  assumes "\<forall>n. \<not> terminal e n"
  shows "cell_27 e (cell_26 e (build e)) = None"
  unfolding cell_27_def using assms
  by (intro polling_loop_diverges) (simp_all add: has_run_id_def call_def started)

lemma cell_27_some_terminal:
  assumes "cell_27 e (cell_26 e (build e)) = Some r"
  shows "\<exists>n. terminal e n"
  using assms cell_27_diverges [of e] by (cases "\<exists>n. terminal e n") auto

section \<open>Termination of the polling loop\<close>

lemma polls_waiting: "length (filter is_poll (concat (replicate m (waiting e)))) = m"
  by (induction m) (simp_all add: waiting_def is_poll_def)

lemma polls_run_log: "length (filter is_poll (build_log e @ run_log e m)) = Suc m"
  by (simp add: polls_waiting run_log_def finishing_def build_log_def is_poll_def)

lemma notebook_diverges:
  assumes "\<forall>n. \<not> terminal e n"
  shows "notebook e = None"
  by (simp add: notebook_def cell_27_diverges [OF assms])

text \<open>
  C3: the polling loop has no timeout and no bound on its iterations. It ends if and only
  if some poll returns COMPLETED, STOPPED or ERROR; when no poll ever does, the loop (and
  with it the notebook) never ends; and when the first such status comes at poll \<open>m\<close>
  (counted from 0), whatever \<open>m\<close> is, the loop ends after exactly \<open>m + 1\<close> polls.
\<close>

theorem polling_loop_ends_iff_terminal_status:
  "(cell_27 e (cell_26 e (build e)) \<noteq> None) =
     (\<exists>n. workflow_run_status e n \<in> set [''COMPLETED'', ''STOPPED'', ''ERROR''])
   \<and> ((\<forall>n. workflow_run_status e n \<notin> set [''COMPLETED'', ''STOPPED'', ''ERROR'']) \<longrightarrow>
        cell_27 e (cell_26 e (build e)) = None \<and> notebook e = None)
   \<and> (\<forall>m. first_terminal e m \<longrightarrow>
        (\<exists>s. cell_27 e (cell_26 e (build e)) = Some (Inr s) \<and>
             length (filter is_poll (log s)) = m + 1))"
proof (intro conjI allI impI)
  show "(cell_27 e (cell_26 e (build e)) \<noteq> None) =
     (\<exists>n. workflow_run_status e n \<in> set [''COMPLETED'', ''STOPPED'', ''ERROR''])"
  proof
    assume "cell_27 e (cell_26 e (build e)) \<noteq> None"
    then obtain r where "cell_27 e (cell_26 e (build e)) = Some r" by blast
    then have "\<exists>n. terminal e n" by (rule cell_27_some_terminal)
    then show "\<exists>n. workflow_run_status e n \<in> set [''COMPLETED'', ''STOPPED'', ''ERROR'']"
      by (simp add: terminal_def terminal_statuses_def)
  next
    assume "\<exists>n. workflow_run_status e n \<in> set [''COMPLETED'', ''STOPPED'', ''ERROR'']"
    then obtain n where "terminal e n" by (auto simp: terminal_def terminal_statuses_def)
    then obtain m where "first_terminal e m" using first_terminal_exists by blast
    then show "cell_27 e (cell_26 e (build e)) \<noteq> None" by (simp add: cell_27_returns)
  qed
next
  assume "\<forall>n. workflow_run_status e n \<notin> set [''COMPLETED'', ''STOPPED'', ''ERROR'']"
  then have never: "\<forall>n. \<not> terminal e n" by (simp add: terminal_def terminal_statuses_def)
  then show "cell_27 e (cell_26 e (build e)) = None" by (rule cell_27_diverges)
  from never show "notebook e = None" by (rule notebook_diverges)
next
  fix m assume "first_terminal e m"
  then have "cell_27 e (cell_26 e (build e)) =
     Some (Inr \<lparr> response = Some [(''RunId'', start_workflow_run_id e)],
                 log = build_log e @ run_log e m \<rparr>)"
    by (rule cell_27_returns)
  moreover have "length (filter is_poll (log \<lparr> response = Some [(''RunId'', start_workflow_run_id e)],
                 log = build_log e @ run_log e m \<rparr>)) = m + 1"
    using polls_run_log [of e m] by simp
  ultimately show "\<exists>s. cell_27 e (cell_26 e (build e)) = Some (Inr s) \<and>
             length (filter is_poll (log s)) = m + 1"
    by blast
qed

lemma first_terminal_example: "first_terminal example_env 2"
  by (simp add: first_terminal_def terminal_def terminal_statuses_def example_env_def
      upt_rec [of 0] upt_rec [of 1] upt_rec [of "Suc 0"])

theorem polling_loop_ends_iff_terminal_status_witness:
  "cell_27 stalled_env (cell_26 stalled_env (build stalled_env)) = None
   \<and> notebook stalled_env = None
   \<and> (\<exists>s. cell_27 example_env (cell_26 example_env (build example_env)) = Some (Inr s)
          \<and> length (filter is_poll (log s)) = 3)"
proof -
  have never: "\<forall>n. workflow_run_status stalled_env n \<notin> set [''COMPLETED'', ''STOPPED'', ''ERROR'']"
    by (simp add: stalled_env_def)
  have "cell_27 stalled_env (cell_26 stalled_env (build stalled_env)) = None
        \<and> notebook stalled_env = None"
    using polling_loop_ends_iff_terminal_status [of stalled_env] never by blast
  moreover have "\<exists>s. cell_27 example_env (cell_26 example_env (build example_env)) = Some (Inr s)
          \<and> length (filter is_poll (log s)) = 2 + 1"
    using polling_loop_ends_iff_terminal_status [of example_env] first_terminal_example by blast
  ultimately show ?thesis by simp
qed

section \<open>The outcomes of the notebook\<close>

lemma payload_frame_ok:
  assumes "df e = Inr d"
  shows "payload_frame e =
     Inr \<lparr> df_columns = drop 1 (df_columns d), df_index = df_index d,
           df_rows = map (\<lambda>r. map (cell_of d r) (drop 1 (df_columns d))) (df_rows d) \<rparr>"
proof -
  have "list_all (\<lambda>c. c \<in> set (df_columns d)) (drop 1 (df_columns d))"
    by (auto simp: list_all_iff dest: in_set_dropD)
  then show ?thesis using assms by (simp add: payload_frame_def getitem_columns_def)
qed

lemma payload_encoded:
  assumes "df e = Inr d"
  shows "payload e = encode_utf8 (to_csv False False
     \<lparr> df_columns = drop 1 (df_columns d), df_index = df_index d,
       df_rows = map (\<lambda>r. map (cell_of d r) (drop 1 (df_columns d))) (df_rows d) \<rparr>)"
  by (simp add: payload_def payload_frame_ok [OF assms])

lemma payload_read:
  assumes "payload e = Inr body"
  obtains d where "df e = Inr d"
  using assms by (cases "df e") (simp_all add: payload_def payload_frame_def)

lemma payload_error:
  assumes "df e = Inl err"
  shows "payload e = Inl err"
  using assms by (simp add: payload_def payload_frame_def)

lemma evaluate_error:
  assumes "payload e = Inl err"
  shows "evaluate e s = Inl (err, s\<lparr>log := log s @ download_log e\<rparr>)"
proof (cases "df e")
  case (Inl err')
  then have "err' = err" using assms payload_error [OF Inl] by simp
  then show ?thesis
    using Inl by (simp add: evaluate_def cell_31_def cell_29_def call_def download_log_def)
next
  case (Inr d)
  then show ?thesis
    using assms
    by (simp add: evaluate_def cell_31_def cell_32_def cell_29_def call_def download_log_def)
qed

lemma evaluate_invoked:
  assumes "payload e = Inr body"
  shows "evaluate e s =
     (case predictions_of e (endpoint_body e) of
        Inl err \<Rightarrow> Inl (err, \<lparr> response = Some [(''Body'', endpoint_body e)],
                         log = log s @ download_log e @ invoke_log e body \<rparr>)
      | Inr predictions \<Rightarrow> Inr \<lparr> response = Some [(''Body'', endpoint_body e)],
                         log = log s @ download_log e @ invoke_log e body \<rparr>)"
proof -
  from assms obtain d where "df e = Inr d" by (rule payload_read)
  then show ?thesis
    using assms
    by (simp add: evaluate_def cell_31_def cell_29_def cell_32_def call_def download_log_def
        invoke_log_def assign_response_def getitem_def split: sum.splits)
qed

lemma clean_up_log:
  "clean_up e s = \<lparr> response = Some [(''Name'', glue_workflow_name e)],
                     log = log s @ clean_up_log e \<rparr>"
  by (simp add: clean_up_def cell_36_def cell_37_def call_def assign_response_def clean_up_log_def)

lemma notebook_first_terminal:
  assumes "first_terminal e m"
  shows "notebook e =
     (case evaluate e (polled e m) of
        Inl err \<Rightarrow> Some (Inl err)
      | Inr s1 \<Rightarrow> Some (Inr (clean_up e s1)))"
  by (simp add: notebook_def cell_27_returns [OF assms] polled_def)

lemma notebook_cases:
  assumes "notebook e = Some r"
  obtains (no_payload) m err where "first_terminal e m" "payload e = Inl err"
      "r = Inl (err, \<lparr> response = Some [(''RunId'', start_workflow_run_id e)],
                      log = build_log e @ run_log e m @ download_log e \<rparr>)"
  | (no_floats) m d body err where "first_terminal e m" "df e = Inr d" "payload e = Inr body"
      "predictions_of e (endpoint_body e) = Inl err"
      "r = Inl (err, \<lparr> response = Some [(''Body'', endpoint_body e)],
                      log = build_log e @ run_log e m @ download_log e @ invoke_log e body \<rparr>)"
  | (complete) m d body predictions where "first_terminal e m" "df e = Inr d"
      "payload e = Inr body" "predictions_of e (endpoint_body e) = Inr predictions"
      "r = Inr \<lparr> response = Some [(''Name'', glue_workflow_name e)], log = full_log e m body \<rparr>"
proof -
  from assms have "cell_27 e (cell_26 e (build e)) \<noteq> None"
    by (auto simp: notebook_def split: option.splits)
  then obtain r' where "cell_27 e (cell_26 e (build e)) = Some r'" by blast
  then obtain n where "terminal e n" using cell_27_some_terminal by blast
  then obtain m where m: "first_terminal e m" using first_terminal_exists by blast
  note nb = notebook_first_terminal [OF m]
  show thesis
  proof (cases "payload e")
    case (Inl err)
    then have "r = Inl (err, \<lparr> response = Some [(''RunId'', start_workflow_run_id e)],
                      log = build_log e @ run_log e m @ download_log e \<rparr>)"
      using assms nb by (simp add: evaluate_error polled_def)
    with m Inl show thesis by (intro no_payload)
  next
    case (Inr body)
    then obtain d where d: "df e = Inr d" by (rule payload_read)
    note ev = evaluate_invoked [OF Inr, of "polled e m"]
    show thesis
    proof (cases "predictions_of e (endpoint_body e)")
      case (Inl err)
      then have "r = Inl (err, \<lparr> response = Some [(''Body'', endpoint_body e)],
                      log = build_log e @ run_log e m @ download_log e @ invoke_log e body \<rparr>)"
        using assms nb ev by (simp add: polled_def)
      with m d \<open>payload e = Inr body\<close> Inl show thesis by (intro no_floats)
    next
      case (Inr predictions)
      then have "r = Inr \<lparr> response = Some [(''Name'', glue_workflow_name e)], log = full_log e m body \<rparr>"
        using assms nb ev by (simp add: polled_def clean_up_log full_log_def)
      with m d \<open>payload e = Inr body\<close> Inr show thesis by (intro complete)
    qed
  qed
qed

lemma notebook_complete:
  assumes "notebook e = Some (Inr s)"
  obtains m body where "first_terminal e m" "payload e = Inr body" "log s = full_log e m body"
  using assms by (cases rule: notebook_cases) auto

section \<open>Order of the calls in a log\<close>

lemma list_ex_concat_replicate:
  "list_ex P (concat (replicate m w)) = (0 < m \<and> list_ex P w)"
  by (induction m) auto

lemma precedes_append:
  "precedes P Q (xs @ ys) =
     (precedes P Q xs \<and> precedes P Q ys \<and> \<not> (list_ex Q xs \<and> list_ex P ys))"
  by (induction xs) auto



lemma precedes_take:
  assumes "precedes P Q tr"
  shows "precedes P Q (take n tr)"
proof -
  have "precedes P Q (take n tr @ drop n tr)" using assms by simp
  then show ?thesis unfolding precedes_append by simp
qed

lemma precedes_nth:
  "precedes P Q tr =
     (\<forall>i<length tr. \<forall>j<length tr. P (tr ! i) \<and> Q (tr ! j) \<longrightarrow> i < j)"
proof (induction tr)
  case Nil
  then show ?case by simp
next
  case (Cons ev tr)
  let ?ordered = "\<lambda>l. \<forall>i<length l. \<forall>j<length l. P (l ! i) \<and> Q (l ! j) \<longrightarrow> i < j"
  have head: "(if Q ev then \<not> P ev \<and> \<not> list_ex P tr else True) =
      (\<forall>i<length (ev # tr). P ((ev # tr) ! i) \<and> Q ev \<longrightarrow> False)"
    by (auto simp: list_ex_length All_less_Suc2)
  have "?ordered (ev # tr) =
      ((\<forall>i<length (ev # tr). P ((ev # tr) ! i) \<and> Q ev \<longrightarrow> False) \<and> ?ordered tr)"
  proof
    assume ord: "?ordered (ev # tr)"
    have "P ((ev # tr) ! i) \<and> Q ev \<longrightarrow> False" if "i < length (ev # tr)" for i
      using ord [rule_format, of i 0] that by auto
    moreover have "P (tr ! i) \<and> Q (tr ! j) \<longrightarrow> i < j" if "i < length tr" "j < length tr" for i j
      using ord [rule_format, of "Suc i" "Suc j"] that by auto
    ultimately show "(\<forall>i<length (ev # tr). P ((ev # tr) ! i) \<and> Q ev \<longrightarrow> False) \<and> ?ordered tr"
      by blast
  next
    assume rhs: "(\<forall>i<length (ev # tr). P ((ev # tr) ! i) \<and> Q ev \<longrightarrow> False) \<and> ?ordered tr"
    show "?ordered (ev # tr)"
    proof (intro allI impI)
      fix i j
      assume i: "i < length (ev # tr)" and j: "j < length (ev # tr)"
        and pq: "P ((ev # tr) ! i) \<and> Q ((ev # tr) ! j)"
      show "i < j"
      proof (cases j)
        case 0
        then show ?thesis using rhs i pq by auto
      next
        case (Suc j')
        show ?thesis
        proof (cases i)
          case 0
          then show ?thesis using Suc by simp
        next
          case (Suc i')
          have "i' < j'"
            using rhs i j pq Suc \<open>j = Suc j'\<close> by simp
          then show ?thesis using Suc \<open>j = Suc j'\<close> by simp
        qed
      qed
    qed
  qed
  then show ?case using Cons.IH head by simp
qed




named_theorems kinds

lemmas [kinds] = is_upload_def is_create_def is_start_def is_poll_def is_terminal_print_def
  is_invoke_def is_delete_def

lemma waiting_kinds:
  "\<not> list_ex is_upload (concat (replicate m (waiting e)))"
  "\<not> list_ex is_create (concat (replicate m (waiting e)))"
  "\<not> list_ex is_start (concat (replicate m (waiting e)))"
  "\<not> list_ex is_terminal_print (concat (replicate m (waiting e)))"
  "\<not> list_ex is_invoke (concat (replicate m (waiting e)))"
  "\<not> list_ex is_delete (concat (replicate m (waiting e)))"
  by (simp_all add: list_ex_concat_replicate waiting_def kinds terminal_statuses_def)

lemma build_log_kinds:
  "list_ex is_upload (build_log e)"
  "list_ex is_create (build_log e)"
  "\<not> list_ex is_start (build_log e)"
  "\<not> list_ex is_poll (build_log e)"
  "\<not> list_ex is_terminal_print (build_log e)"
  "\<not> list_ex is_invoke (build_log e)"
  "\<not> list_ex is_delete (build_log e)"
  by (simp_all add: build_log_def kinds)

lemma run_log_kinds:
  "\<not> list_ex is_upload (run_log e m)"
  "\<not> list_ex is_create (run_log e m)"
  "list_ex is_start (run_log e m)"
  "list_ex is_poll (run_log e m)"
  "terminal e m \<Longrightarrow> list_ex is_terminal_print (run_log e m)"
  "\<not> list_ex is_invoke (run_log e m)"
  "\<not> list_ex is_delete (run_log e m)"
  by (simp_all add: run_log_def finishing_def waiting_kinds kinds terminal_def)

lemma download_log_kinds:
  "\<not> list_ex is_upload (download_log e)"
  "\<not> list_ex is_create (download_log e)"
  "\<not> list_ex is_start (download_log e)"
  "\<not> list_ex is_poll (download_log e)"
  "\<not> list_ex is_terminal_print (download_log e)"
  "\<not> list_ex is_invoke (download_log e)"
  "\<not> list_ex is_delete (download_log e)"
  by (simp_all add: download_log_def kinds)

lemma invoke_log_kinds:
  "\<not> list_ex is_upload (invoke_log e body)"
  "\<not> list_ex is_create (invoke_log e body)"
  "\<not> list_ex is_start (invoke_log e body)"
  "\<not> list_ex is_poll (invoke_log e body)"
  "\<not> list_ex is_terminal_print (invoke_log e body)"
  "list_ex is_invoke (invoke_log e body)"
  "\<not> list_ex is_delete (invoke_log e body)"
  by (simp_all add: invoke_log_def kinds)

lemma clean_up_log_kinds:
  "\<not> list_ex is_upload (clean_up_log e)"
  "\<not> list_ex is_create (clean_up_log e)"
  "\<not> list_ex is_start (clean_up_log e)"
  "\<not> list_ex is_poll (clean_up_log e)"
  "\<not> list_ex is_terminal_print (clean_up_log e)"
  "\<not> list_ex is_invoke (clean_up_log e)"
  "list_ex is_delete (clean_up_log e)"
  "\<not> list_ex (\<lambda>ev. \<not> is_delete ev) (clean_up_log e)"
  by (simp_all add: clean_up_log_def kinds)

lemmas log_kinds = build_log_kinds run_log_kinds download_log_kinds invoke_log_kinds
  clean_up_log_kinds









section \<open>The order of operations\<close>

lemma notebook_example:
  "notebook example_env =
     Some (Inr \<lparr> response = Some [(''Name'', glue_workflow_name example_env)],
                 log = full_log example_env 2 example_body \<rparr>)"
  by code_simp




section \<open>What the logs create and delete\<close>

lemma concat_map_concat_replicate:
  "concat (map f (concat (replicate m w))) = concat (replicate m (concat (map f w)))"
  by (induction m) simp_all

lemma concat_replicate_Nil: "concat (replicate m []) = ([] :: 'a list)"
  by (induction m) simp_all

named_theorems extracts

lemmas [extracts] = created_workflows_def created_jobs_def created_triggers_def
  deleted_jobs_def deleted_triggers_def deleted_workflows_def deleted_endpoints_def
  handed_endpoints_def

lemma extracts_append:
  "created_workflows (xs @ ys) = created_workflows xs @ created_workflows ys"
  "created_jobs (xs @ ys) = created_jobs xs @ created_jobs ys"
  "created_triggers (xs @ ys) = created_triggers xs @ created_triggers ys"
  "deleted_jobs (xs @ ys) = deleted_jobs xs @ deleted_jobs ys"
  "deleted_triggers (xs @ ys) = deleted_triggers xs @ deleted_triggers ys"
  "deleted_workflows (xs @ ys) = deleted_workflows xs @ deleted_workflows ys"
  "deleted_endpoints (xs @ ys) = deleted_endpoints xs @ deleted_endpoints ys"
  "handed_endpoints (xs @ ys) = handed_endpoints xs @ handed_endpoints ys"
  by (simp_all add: extracts)

lemma build_log_extracts:
  "created_workflows (build_log e) = [glue_workflow_name e]"
  "created_jobs (build_log e) = [data_processing_job e, model_training_deployment_job e]"
  "created_triggers (build_log e) = [data_processing_trigger e, model_train_deploy_trigger e]"
  "deleted_jobs (build_log e) = []"
  "deleted_triggers (build_log e) = []"
  "deleted_workflows (build_log e) = []"
  "deleted_endpoints (build_log e) = []"
  by (simp_all add: extracts build_log_def)

lemma build_log_handed: "handed_endpoints (build_log e) = [endpoint_name e]"
  by (simp add: handed_endpoints_def build_log_def data_processing_trigger_def
      model_train_deploy_trigger_def endpoint_argument_def)

lemma run_log_extracts:
  "created_workflows (run_log e m) = []"
  "created_jobs (run_log e m) = []"
  "created_triggers (run_log e m) = []"
  "deleted_jobs (run_log e m) = []"
  "deleted_triggers (run_log e m) = []"
  "deleted_workflows (run_log e m) = []"
  "deleted_endpoints (run_log e m) = []"
  "handed_endpoints (run_log e m) = []"
  by (simp_all add: extracts run_log_def finishing_def waiting_def
      concat_map_concat_replicate concat_replicate_Nil)

lemma download_log_extracts:
  "created_workflows (download_log e) = []"
  "created_jobs (download_log e) = []"
  "created_triggers (download_log e) = []"
  "deleted_jobs (download_log e) = []"
  "deleted_triggers (download_log e) = []"
  "deleted_workflows (download_log e) = []"
  "deleted_endpoints (download_log e) = []"
  "handed_endpoints (download_log e) = []"
  by (simp_all add: extracts download_log_def)

lemma invoke_log_extracts:
  "created_workflows (invoke_log e body) = []"
  "created_jobs (invoke_log e body) = []"
  "created_triggers (invoke_log e body) = []"
  "deleted_jobs (invoke_log e body) = []"
  "deleted_triggers (invoke_log e body) = []"
  "deleted_workflows (invoke_log e body) = []"
  "deleted_endpoints (invoke_log e body) = []"
  "handed_endpoints (invoke_log e body) = []"
  by (simp_all add: extracts invoke_log_def)

lemma clean_up_log_extracts:
  "created_workflows (clean_up_log e) = []"
  "created_jobs (clean_up_log e) = []"
  "created_triggers (clean_up_log e) = []"
  "deleted_jobs (clean_up_log e) =
     [data_processing_job_name e, model_training_deployment_job_name e]"
  "deleted_triggers (clean_up_log e) =
     [data_processing_trigger_name e, model_train_deploy_trigger_name e]"
  "deleted_workflows (clean_up_log e) = [glue_workflow_name e]"
  "deleted_endpoints (clean_up_log e) = [endpoint_name e]"
  "handed_endpoints (clean_up_log e) = []"
  by (simp_all add: extracts clean_up_log_def)

lemmas log_extracts = extracts_append build_log_extracts build_log_handed run_log_extracts
  download_log_extracts invoke_log_extracts clean_up_log_extracts

lemma created_in_log:
  assumes "notebook e = Some r"
  shows "created_workflows (log_of r) = [glue_workflow_name e]"
    and "created_jobs (log_of r) = [data_processing_job e, model_training_deployment_job e]"
    and "created_triggers (log_of r) = [data_processing_trigger e, model_train_deploy_trigger e]"
  using assms
  by (cases rule: notebook_cases; simp add: log_of_def state_of_def full_log_def log_extracts)+

lemma example_final_eq:
  "example_final = \<lparr> response = Some [(''Name'', glue_workflow_name example_env)],
                       log = full_log example_env 2 example_body \<rparr>"
  by (simp add: example_final_def full_log_def)

lemma notebook_example_final: "notebook example_env = Some (Inr example_final)"
  unfolding example_final_eq by (rule notebook_example)

section \<open>The job graph and the names of its resources\<close>

text \<open>
  C1: the notebook builds the two-step job graph. It creates one workflow, exactly two
  jobs and exactly two triggers, in the cells that build the workflow and in the whole
  session, and both triggers belong to that workflow. The first trigger has type
  ON_DEMAND, no predicate and a single action, which starts the data-preprocessing job.
  The second has type CONDITIONAL, the single condition (JobName the data-preprocessing
  job, LogicalOperator EQUALS, State SUCCEEDED) and a single action, which starts the
  model-training/deployment job.
\<close>

theorem two_jobs_two_triggers:
  "created_workflows (log (build e)) = [glue_workflow_name e]
   \<and> created_jobs (log (build e)) = [data_processing_job e, model_training_deployment_job e]
   \<and> created_triggers (log (build e)) = [data_processing_trigger e, model_train_deploy_trigger e]
   \<and> job_Name (data_processing_job e) \<noteq> job_Name (model_training_deployment_job e)
   \<and> trg_Name (data_processing_trigger e) \<noteq> trg_Name (model_train_deploy_trigger e)
   \<and> trg_WorkflowName (data_processing_trigger e) = glue_workflow_name e
   \<and> trg_Type (data_processing_trigger e) = ''ON_DEMAND''
   \<and> trg_Conditions (data_processing_trigger e) = None
   \<and> map act_JobName (trg_Actions (data_processing_trigger e)) =
        [job_Name (data_processing_job e)]
   \<and> trg_WorkflowName (model_train_deploy_trigger e) = glue_workflow_name e
   \<and> trg_Type (model_train_deploy_trigger e) = ''CONDITIONAL''
   \<and> trg_Conditions (model_train_deploy_trigger e) =
        Some [\<lparr> cond_LogicalOperator = ''EQUALS'',
                cond_JobName = job_Name (data_processing_job e),
                cond_State = ''SUCCEEDED'' \<rparr>]
   \<and> map act_JobName (trg_Actions (model_train_deploy_trigger e)) =
        [job_Name (model_training_deployment_job e)]
   \<and> (\<forall>r. notebook e = Some r \<longrightarrow>
          created_workflows (log_of r) = [glue_workflow_name e]
        \<and> created_jobs (log_of r) = [data_processing_job e, model_training_deployment_job e]
        \<and> created_triggers (log_of r) =
            [data_processing_trigger e, model_train_deploy_trigger e])"
proof -
  have built: "created_workflows (log (build e)) = [glue_workflow_name e]
     \<and> created_jobs (log (build e)) = [data_processing_job e, model_training_deployment_job e]
     \<and> created_triggers (log (build e)) =
        [data_processing_trigger e, model_train_deploy_trigger e]"
    by (simp add: log_build build_log_extracts)
  have names: "job_Name (data_processing_job e) \<noteq> job_Name (model_training_deployment_job e)
     \<and> trg_Name (data_processing_trigger e) \<noteq> trg_Name (model_train_deploy_trigger e)"
    by (simp add: data_processing_job_def model_training_deployment_job_def
        data_processing_job_name_def model_training_deployment_job_name_def
        data_processing_trigger_def model_train_deploy_trigger_def
        data_processing_trigger_name_def model_train_deploy_trigger_name_def)
  have first: "trg_WorkflowName (data_processing_trigger e) = glue_workflow_name e
     \<and> trg_Type (data_processing_trigger e) = ''ON_DEMAND''
     \<and> trg_Conditions (data_processing_trigger e) = None
     \<and> map act_JobName (trg_Actions (data_processing_trigger e)) =
        [job_Name (data_processing_job e)]"
    by (simp add: data_processing_trigger_def data_processing_job_def)
  have second: "trg_WorkflowName (model_train_deploy_trigger e) = glue_workflow_name e
     \<and> trg_Type (model_train_deploy_trigger e) = ''CONDITIONAL''
     \<and> trg_Conditions (model_train_deploy_trigger e) =
        Some [\<lparr> cond_LogicalOperator = ''EQUALS'',
                cond_JobName = job_Name (data_processing_job e),
                cond_State = ''SUCCEEDED'' \<rparr>]
     \<and> map act_JobName (trg_Actions (model_train_deploy_trigger e)) =
        [job_Name (model_training_deployment_job e)]"
    by (simp add: model_train_deploy_trigger_def data_processing_job_def
        model_training_deployment_job_def)
  have later: "created_workflows (log_of r) = [glue_workflow_name e]
        \<and> created_jobs (log_of r) = [data_processing_job e, model_training_deployment_job e]
        \<and> created_triggers (log_of r) =
            [data_processing_trigger e, model_train_deploy_trigger e]"
    if "notebook e = Some r" for r
    using created_in_log [OF that] by simp
  from built names first second later show ?thesis by blast
qed

theorem two_jobs_two_triggers_witness:
  "notebook example_env = Some (Inr example_final)
   \<and> created_workflows (log example_final) = [glue_workflow_name example_env]
   \<and> created_jobs (log example_final) =
       [data_processing_job example_env, model_training_deployment_job example_env]
   \<and> created_triggers (log example_final) =
       [data_processing_trigger example_env, model_train_deploy_trigger example_env]"
  using two_jobs_two_triggers [of example_env] notebook_example_final
  by (simp add: log_of_def state_of_def)

text \<open>
  C4: both calls of \<^verbatim>\<open>create_job\<close> pass MaxRetries = 0, and these two are the only jobs
  the notebook creates: every job created in a session is configured never to retry.
\<close>

theorem jobs_never_retry:
  "job_MaxRetries (data_processing_job e) = 0
   \<and> job_MaxRetries (model_training_deployment_job e) = 0
   \<and> created_jobs (log (build e)) = [data_processing_job e, model_training_deployment_job e]
   \<and> (\<forall>r. notebook e = Some r \<longrightarrow>
          list_all (\<lambda>j. job_MaxRetries j = 0) (created_jobs (log_of r)))"
proof -
  have zero: "job_MaxRetries (data_processing_job e) = 0
     \<and> job_MaxRetries (model_training_deployment_job e) = 0"
    by (simp add: data_processing_job_def model_training_deployment_job_def)
  have built: "created_jobs (log (build e)) =
      [data_processing_job e, model_training_deployment_job e]"
    by (simp add: log_build build_log_extracts)
  have "list_all (\<lambda>j. job_MaxRetries j = 0) (created_jobs (log_of r))"
    if "notebook e = Some r" for r
    using created_in_log(2) [OF that] zero by simp
  with zero built show ?thesis by blast
qed

theorem jobs_never_retry_witness:
  "notebook example_env = Some (Inr example_final)
   \<and> created_jobs (log example_final) \<noteq> []
   \<and> list_all (\<lambda>j. job_MaxRetries j = 0) (created_jobs (log example_final))"
proof -
  have "created_jobs (log example_final) \<noteq> []"
    by (simp add: example_final_def log_extracts)
  then show ?thesis
    using jobs_never_retry [of example_env] notebook_example_final
    by (simp add: log_of_def state_of_def)
qed

text \<open>
  C8: resource names flow through unchanged. In a complete session the names passed to
  \<^verbatim>\<open>delete_job\<close>, \<^verbatim>\<open>delete_trigger\<close> and \<^verbatim>\<open>delete_workflow\<close> are, in the same order, the names
  passed to \<^verbatim>\<open>create_job\<close>, \<^verbatim>\<open>create_trigger\<close> and \<^verbatim>\<open>create_workflow\<close>, and the name passed to
  \<^verbatim>\<open>delete_endpoint\<close> is the one handed to the training/deployment job as its
  \<^verbatim>\<open>--endpoint_name\<close> argument. Each name is a variable assigned once, a function of the
  environment alone, so nothing in between changes it.
\<close>

theorem names_flow_unchanged:
  assumes "notebook e = Some (Inr s)"
  shows "deleted_jobs (log s) = map job_Name (created_jobs (log s))
    \<and> deleted_triggers (log s) = map trg_Name (created_triggers (log s))
    \<and> deleted_workflows (log s) = created_workflows (log s)
    \<and> deleted_endpoints (log s) = handed_endpoints (log s)
    \<and> deleted_jobs (log s) = [data_processing_job_name e, model_training_deployment_job_name e]
    \<and> deleted_triggers (log s) =
        [data_processing_trigger_name e, model_train_deploy_trigger_name e]
    \<and> deleted_workflows (log s) = [glue_workflow_name e]
    \<and> deleted_endpoints (log s) = [endpoint_name e]"
proof -
  from assms obtain m body where "log s = full_log e m body"
    by (rule notebook_complete)
  then show ?thesis
    by (simp add: full_log_def log_extracts data_processing_job_def
        model_training_deployment_job_def data_processing_trigger_def
        model_train_deploy_trigger_def)
qed

theorem names_flow_unchanged_witness:
  "notebook example_env = Some (Inr example_final)
   \<and> deleted_jobs (log example_final) =
       [''DataProcessingJob-0f8fad5bd9cb469fa16570867728950e'',
        ''ModelTrainingDeploymentJob-0f8fad5bd9cb469fa16570867728950e'']
   \<and> map job_Name (created_jobs (log example_final)) = deleted_jobs (log example_final)
   \<and> deleted_endpoints (log example_final) = [''gw-customer-churn-endpoint-11-3-9-5'']
   \<and> handed_endpoints (log example_final) = deleted_endpoints (log example_final)"
proof -
  have names: "data_processing_job_name example_env =
        ''DataProcessingJob-0f8fad5bd9cb469fa16570867728950e''"
    "model_training_deployment_job_name example_env =
        ''ModelTrainingDeploymentJob-0f8fad5bd9cb469fa16570867728950e''"
    "endpoint_name example_env = ''gw-customer-churn-endpoint-11-3-9-5''"
    by code_simp+
  note flow = names_flow_unchanged [OF notebook_example_final]
  have "deleted_jobs (log example_final) =
       [data_processing_job_name example_env, model_training_deployment_job_name example_env]"
    using flow by blast
  moreover have "map job_Name (created_jobs (log example_final)) =
       deleted_jobs (log example_final)"
    using flow by metis
  moreover have "deleted_endpoints (log example_final) = [endpoint_name example_env]"
    using flow by blast
  moreover have "handed_endpoints (log example_final) = deleted_endpoints (log example_final)"
    using flow by metis
  ultimately show ?thesis
    unfolding names using notebook_example_final by blast
qed

section \<open>What the clean-up leaves behind\<close>

lemma after_waiting: "foldl (after_call e) rs (concat (replicate m (waiting e'))) = rs"
  by (induction m) (simp_all add: waiting_def after_call_def)

lemma after_run_log: "foldl (after_call e) rs (run_log e' m) = rs"
  by (simp add: run_log_def after_waiting finishing_def after_call_def)

lemma after_download_log: "foldl (after_call e) rs (download_log e') = rs"
  by (simp add: download_log_def after_call_def)

lemma after_invoke_log: "foldl (after_call e) rs (invoke_log e' body) = rs"
  by (simp add: invoke_log_def after_call_def)

lemma after_build_log:
  "foldl (after_call e) [] (build_log e) =
     [GlueTrigger (model_train_deploy_trigger_name e),
      GlueTrigger (data_processing_trigger_name e),
      GlueJob (model_training_deployment_job_name e),
      S3Object (model_training_deployment_script_path e),
      GlueJob (data_processing_job_name e),
      S3Object (data_processing_script_path e),
      GlueWorkflow (glue_workflow_name e),
      S3Object (s3_upload e ''../data/churn_processed.csv'' (raw_data e)),
      IamRole glue_role_name]"
  by (simp add: build_log_def after_call_def data_processing_job_def
      model_training_deployment_job_def data_processing_trigger_def
      model_train_deploy_trigger_def data_processing_script_path_def
      model_training_deployment_script_path_def)

lemma after_clean_up_log:
  "foldl (after_call e)
     [GlueTrigger (model_train_deploy_trigger_name e),
      GlueTrigger (data_processing_trigger_name e),
      GlueJob (model_training_deployment_job_name e),
      S3Object p2,
      GlueJob (data_processing_job_name e),
      S3Object p1,
      GlueWorkflow (glue_workflow_name e),
      S3Object p0,
      IamRole role] (clean_up_log e) =
     [S3Object p2, S3Object p1, S3Object p0, IamRole role]"
  by (simp add: clean_up_log_def after_call_def)

lemma left_behind_full_log:
  "left_behind e (full_log e m body) =
     [S3Object (model_training_deployment_script_path e),
      S3Object (data_processing_script_path e),
      S3Object (s3_upload e ''../data/churn_processed.csv'' (raw_data e)),
      IamRole glue_role_name]"
  by (simp add: left_behind_def full_log_def after_build_log after_run_log
      after_download_log after_invoke_log after_clean_up_log)

text \<open>
  C6 as stated, that the clean-up leaves nothing behind that the notebook provisioned,
  fails: in the session of \<open>example_env\<close> the three objects uploaded to S3 and the IAM
  role created in cell 7 are still there after the last cell. No cell deletes an S3
  object or a role.
\<close>

theorem clean_up_leaves_uploads_and_role:
  "notebook example_env = Some (Inr example_final)
   \<and> left_behind example_env (log example_final) =
       [S3Object ''s3://sagemaker-us-east-1-123456789012/sagemaker/DEMO-xgboost-customer-churn/glue/scripts/model_training_deployment.py'',
        S3Object ''s3://sagemaker-us-east-1-123456789012/sagemaker/DEMO-xgboost-customer-churn/glue/scripts/glue_preprocessing.py'',
        S3Object ''s3://sagemaker-us-east-1-123456789012/sagemaker/DEMO-xgboost-customer-churn/input/churn_processed.csv'',
        IamRole ''AWS-Glue-S3-SageMaker-Access'']
   \<and> left_behind example_env (log example_final) \<noteq> []"
proof -
  have "left_behind example_env (log example_final) =
       [S3Object ''s3://sagemaker-us-east-1-123456789012/sagemaker/DEMO-xgboost-customer-churn/glue/scripts/model_training_deployment.py'',
        S3Object ''s3://sagemaker-us-east-1-123456789012/sagemaker/DEMO-xgboost-customer-churn/glue/scripts/glue_preprocessing.py'',
        S3Object ''s3://sagemaker-us-east-1-123456789012/sagemaker/DEMO-xgboost-customer-churn/input/churn_processed.csv'',
        IamRole ''AWS-Glue-S3-SageMaker-Access'']"
    by code_simp
  then show ?thesis using notebook_example_final by simp
qed

text \<open>
  C6, amended: after the clean-up cells of a complete session the two Glue jobs, the two
  Glue triggers and the Glue workflow that the notebook created are deleted, and the
  last call is \<^verbatim>\<open>delete_endpoint\<close> for the endpoint name handed to the training/deployment
  job; what remains of the resources the notebook created is the three objects it
  uploaded to S3 and the IAM role of cell 7.
\<close>

theorem clean_up_deletes_glue_resources:
  assumes "notebook e = Some (Inr s)"
  shows "left_behind e (log (build e)) =
       [GlueTrigger (model_train_deploy_trigger_name e),
        GlueTrigger (data_processing_trigger_name e),
        GlueJob (model_training_deployment_job_name e),
        S3Object (model_training_deployment_script_path e),
        GlueJob (data_processing_job_name e),
        S3Object (data_processing_script_path e),
        GlueWorkflow (glue_workflow_name e),
        S3Object (s3_upload e ''../data/churn_processed.csv'' (raw_data e)),
        IamRole glue_role_name]
    \<and> left_behind e (log s) =
       [S3Object (model_training_deployment_script_path e),
        S3Object (data_processing_script_path e),
        S3Object (s3_upload e ''../data/churn_processed.csv'' (raw_data e)),
        IamRole glue_role_name]
    \<and> \<not> list_ex is_glue (left_behind e (log s))
    \<and> handed_endpoints (log s) = [endpoint_name e]
    \<and> deleted_endpoints (log s) = [endpoint_name e]
    \<and> last (log s) = DeleteEndpoint (endpoint_name e)"
proof -
  from assms obtain m body where full: "log s = full_log e m body"
    by (rule notebook_complete)
  have "left_behind e (log (build e)) = foldl (after_call e) [] (build_log e)"
    by (simp add: left_behind_def log_build)
  moreover have "\<not> list_ex is_glue (left_behind e (log s))"
    by (simp add: full left_behind_full_log is_glue_def)
  moreover have "handed_endpoints (log s) = [endpoint_name e]"
    "deleted_endpoints (log s) = [endpoint_name e]"
    by (simp_all add: full full_log_def log_extracts)
  moreover have "last (log s) = DeleteEndpoint (endpoint_name e)"
    by (simp add: full full_log_def clean_up_log_def)
  ultimately show ?thesis
    by (simp add: full left_behind_full_log after_build_log)
qed

theorem clean_up_deletes_glue_resources_witness:
  "notebook example_env = Some (Inr example_final)
   \<and> \<not> list_ex is_glue (left_behind example_env (log example_final))
   \<and> list_ex is_glue (left_behind example_env (log (build example_env)))
   \<and> deleted_endpoints (log example_final) = [endpoint_name example_env]"
proof -
  note del = clean_up_deletes_glue_resources [OF notebook_example_final]
  have "list_ex is_glue (left_behind example_env (log (build example_env)))"
    using del by (simp add: is_glue_def)
  moreover have "\<not> list_ex is_glue (left_behind example_env (log example_final))"
    using del by blast
  moreover have "deleted_endpoints (log example_final) = [endpoint_name example_env]"
    using del by blast
  ultimately show ?thesis using notebook_example_final by blast
qed

section \<open>One pass of the polling loop\<close>

text \<open>
  C2: every pass through the loop, in a state that holds the response of
  \<^verbatim>\<open>start_workflow_run\<close> (the state in which the loop is entered, and every pass keeps
  it), first calls \<^verbatim>\<open>get_workflow_run\<close> for the workflow and the RunId of that response.
  If the status is one of the three values COMPLETED, STOPPED, ERROR, the pass prints it
  and the loop ends; otherwise the pass prints a dot and sleeps 30 seconds, whatever the
  number of the poll, and the loop goes on with the next poll.
\<close>

theorem poll_iteration_three_way:
  assumes "response s = response (cell_26 e (build e))"
  shows "response (cell_26 e (build e)) = Some [(''RunId'', start_workflow_run_id e)]
    \<and> terminal_statuses = [''COMPLETED'', ''STOPPED'', ''ERROR'']
    \<and> poll_iteration e k s =
        (if workflow_run_status e k \<in> {''COMPLETED'', ''STOPPED'', ''ERROR''}
         then Inr (True, s\<lparr>log := log s @
                 [GetWorkflowRun (glue_workflow_name e) (start_workflow_run_id e) True,
                  Print (workflow_run_status e k)]\<rparr>)
         else Inr (False, s\<lparr>log := log s @
                 [GetWorkflowRun (glue_workflow_name e) (start_workflow_run_id e) True,
                  Print ''.'', Sleep 30]\<rparr>))
    \<and> polling_loop e k s =
        (if workflow_run_status e k \<in> {''COMPLETED'', ''STOPPED'', ''ERROR''}
         then Some (Inr (s\<lparr>log := log s @
                 [GetWorkflowRun (glue_workflow_name e) (start_workflow_run_id e) True,
                  Print (workflow_run_status e k)]\<rparr>))
         else polling_loop e (Suc k) (s\<lparr>log := log s @
                 [GetWorkflowRun (glue_workflow_name e) (start_workflow_run_id e) True,
                  Print ''.'', Sleep 30]\<rparr>))"
proof -
  have started': "response (cell_26 e (build e)) = Some [(''RunId'', start_workflow_run_id e)]"
    by (simp add: started)
  with assms have rid: "has_run_id e s" by (simp add: has_run_id_def)
  have t: "terminal e k = (workflow_run_status e k \<in> {''COMPLETED'', ''STOPPED'', ''ERROR''})"
    by (simp add: terminal_def terminal_statuses_def)
  have iteration: "poll_iteration e k s =
        (if workflow_run_status e k \<in> {''COMPLETED'', ''STOPPED'', ''ERROR''}
         then Inr (True, s\<lparr>log := log s @ finishing e k\<rparr>)
         else Inr (False, s\<lparr>log := log s @ waiting e\<rparr>))"
    using poll_iteration_run_id [OF rid, of k] unfolding t by (simp split: if_splits)
  have loop: "polling_loop e k s =
        (if workflow_run_status e k \<in> {''COMPLETED'', ''STOPPED'', ''ERROR''}
         then Some (Inr (s\<lparr>log := log s @ finishing e k\<rparr>))
         else polling_loop e (Suc k) (s\<lparr>log := log s @ waiting e\<rparr>))"
    using polling_loop_stop [OF rid, of k] polling_loop_wait [OF rid, of k] unfolding t
    by (simp split: if_splits)
  show ?thesis
    using started' iteration loop
    by (simp only: finishing_def waiting_def terminal_statuses_def)
qed

lemma example_statuses:
  "workflow_run_status example_env 0 = ''RUNNING''"
  "workflow_run_status example_env 2 = ''COMPLETED''"
  by (simp_all add: example_env_def)

theorem poll_iteration_three_way_witness:
  "poll_iteration example_env 0 (cell_26 example_env (build example_env)) =
     Inr (False, (cell_26 example_env (build example_env))
        \<lparr>log := log (cell_26 example_env (build example_env)) @
           [GetWorkflowRun (glue_workflow_name example_env) ''wr_1'' True, Print ''.'', Sleep 30]\<rparr>)
   \<and> poll_iteration example_env 2 (cell_26 example_env (build example_env)) =
     Inr (True, (cell_26 example_env (build example_env))
        \<lparr>log := log (cell_26 example_env (build example_env)) @
           [GetWorkflowRun (glue_workflow_name example_env) ''wr_1'' True, Print ''COMPLETED'']\<rparr>)"
proof -
  have rid: "start_workflow_run_id example_env = ''wr_1''" by (simp add: example_env_def)
  show ?thesis
    using poll_iteration_three_way [of "cell_26 example_env (build example_env)" example_env 0]
      poll_iteration_three_way [of "cell_26 example_env (build example_env)" example_env 2]
    by (simp add: example_statuses rid)
qed

section \<open>The names\<close>

text \<open>
  C10: the five Glue names are fixed prefixes followed by the one uuid4 hex string of the
  session, so they are functions of that id and pairwise distinct. The endpoint name is
  a fixed prefix followed by month, day, hour and minute of the clock; it does not depend
  on the id, and two sessions started in the same minute get the same endpoint name.
\<close>

theorem glue_names_embed_id_endpoint_name_the_minute:
  "id' e = uuid4_hex e
   \<and> glue_workflow_name e = ''CustomerChurnMLWorkflow-'' @ id' e
   \<and> data_processing_job_name e = ''DataProcessingJob-'' @ id' e
   \<and> model_training_deployment_job_name e = ''ModelTrainingDeploymentJob-'' @ id' e
   \<and> data_processing_trigger_name e = ''TriggerDataProcessingJob-'' @ id' e
   \<and> model_train_deploy_trigger_name e = ''TriggerModelTrainingDeploymentJob-'' @ id' e
   \<and> distinct [glue_workflow_name e, data_processing_job_name e,
         model_training_deployment_job_name e, data_processing_trigger_name e,
         model_train_deploy_trigger_name e]
   \<and> endpoint_name e =
        ''gw-customer-churn-endpoint-'' @ str_nat (now_month e) @ ''-'' @ str_nat (now_day e)
          @ ''-'' @ str_nat (now_hour e) @ ''-'' @ str_nat (now_minute e)
   \<and> endpoint_name (e\<lparr>uuid4_hex := other_id\<rparr>) = endpoint_name e
   \<and> (\<forall>e' :: 'f env.
         now_month e' = now_month e \<and> now_day e' = now_day e \<and> now_hour e' = now_hour e
         \<and> now_minute e' = now_minute e \<longrightarrow> endpoint_name e' = endpoint_name e)"
  by (simp add: id'_def glue_workflow_name_def data_processing_job_name_def
      model_training_deployment_job_name_def data_processing_trigger_name_def
      model_train_deploy_trigger_name_def endpoint_name_def timestamp_suffix_def)

theorem glue_names_embed_id_endpoint_name_the_minute_witness:
  "endpoint_name other_env = endpoint_name example_env
   \<and> endpoint_name example_env = ''gw-customer-churn-endpoint-11-3-9-5''
   \<and> glue_workflow_name other_env \<noteq> glue_workflow_name example_env"
proof -
  have same: "now_month other_env = now_month example_env \<and> now_day other_env = now_day example_env
    \<and> now_hour other_env = now_hour example_env \<and> now_minute other_env = now_minute example_env"
    by (simp add: other_env_def)
  have "endpoint_name other_env = endpoint_name example_env"
    using glue_names_embed_id_endpoint_name_the_minute [of example_env] same by blast
  moreover have "endpoint_name example_env = ''gw-customer-churn-endpoint-11-3-9-5''"
    by code_simp
  moreover have "glue_workflow_name other_env \<noteq> glue_workflow_name example_env"
    by code_simp
  ultimately show ?thesis by blast
qed

section \<open>The request to the endpoint and its response\<close>

lemma takeWhile_upt:
  assumes "c < n"
  shows "takeWhile (\<lambda>c'. c' \<noteq> c) [0..<n] = [0..<c]"
  using assms
proof (induction n)
  case 0
  then show ?case by simp
next
  case (Suc n)
  show ?case
  proof (cases "c < n")
    case True
    then have "takeWhile (\<lambda>c'. c' \<noteq> c) ([0..<n] @ [n]) = takeWhile (\<lambda>c'. c' \<noteq> c) [0..<n]"
      by (intro takeWhile_append1 [of c]) simp_all
    then show ?thesis using Suc.IH True by simp
  next
    case False
    with Suc.prems have c: "c = n" by simp
    have "takeWhile (\<lambda>c'. c' \<noteq> n) ([0..<n] @ [n]) = [0..<n] @ takeWhile (\<lambda>c'. c' \<noteq> n) [n]"
      by (rule takeWhile_append2) simp
    then show ?thesis using c by simp
  qed
qed

lemma position_upt: "c < n \<Longrightarrow> position c [0..<n] = c"
  by (simp add: position_def takeWhile_upt)

lemma read_csv_frame:
  assumes "df e = Inr d"
  shows "df_rows d = test_csv e" "df_index d = [0..<length (test_csv e)]"
    "df_columns d = [0..<length (df_columns d)]"
  using assms by (auto simp: df_def read_csv_def split: list.splits)

lemma tl_nth: "map (\<lambda>c. r ! c) [Suc 0..<length r] = tl r"
  by (simp add: list_eq_iff_nth_eq nth_tl)

lemma payload_row:
  assumes "df_columns d = [0..<n]" "length r = n"
  shows "map (cell_of d r) [Suc 0..<n] = tl r"
proof -
  have "map (cell_of d r) [Suc 0..<n] = map (\<lambda>c. r ! c) [Suc 0..<n]"
    using assms by (intro map_cong) (simp_all add: cell_of_def position_upt)
  also have "\<dots> = tl r" unfolding assms(2) [symmetric] by (rule tl_nth)
  finally show ?thesis .
qed

lemma csv_lines_plain:
  assumes "length (df_index p) = length (df_rows p)"
  shows "csv_lines False False p = map (join (ascii '','')) (df_rows p)"
proof -
  have "map (\<lambda>(i, r). join (ascii '','') r) (zip (df_index p) (df_rows p)) =
      map (join (ascii '','')) (map snd (zip (df_index p) (df_rows p)))"
    by (simp add: case_prod_unfold)
  then show ?thesis using assms by (simp add: csv_lines_def)
qed

lemma to_csv_plain:
  assumes "length (df_index p) = length (df_rows p)"
  shows "to_csv False False p =
     concat (map (\<lambda>r. join (ascii '','') r @ ascii newline) (df_rows p))"
  by (simp add: to_csv_def csv_lines_plain [OF assms] comp_def)

lemma str_split_not_Nil: "str_split c s \<noteq> []"
  by (induction s) (auto split: list.splits)

lemma str_split_join: "join [c] (str_split c s) = s"
proof (induction s)
  case Nil
  then show ?case by simp
next
  case (Cons x s)
  obtain p ps where ps: "str_split c s = p # ps"
    using str_split_not_Nil [of c s] by (cases "str_split c s") auto
  show ?case
  proof (cases "x = c")
    case True
    then show ?thesis using Cons ps by simp
  next
    case False
    then show ?thesis using Cons ps by (cases ps) simp_all
  qed
qed

lemma str_split_pieces: "piece \<in> set (str_split c s) \<Longrightarrow> c \<notin> set piece"
proof (induction s arbitrary: piece)
  case Nil
  then show ?case by simp
next
  case (Cons x s)
  then show ?case by (auto split: if_splits list.splits)
qed

lemma asarray_float_Inr:
  "asarray_float conv pieces = Inr xs \<Longrightarrow> map conv pieces = map Some xs"
  by (induction pieces arbitrary: xs) (auto split: option.splits sum.splits)

lemma filter_none: "\<not> list_ex P tr \<Longrightarrow> filter P tr = []"
  by (simp add: list_ex_iff filter_empty_conv)

lemma invoke_in_full_log:
  "filter is_invoke (full_log e m body) = [InvokeEndpoint (endpoint_name e) ''text/csv'' body]"
  by (simp add: full_log_def filter_none log_kinds) (simp add: invoke_log_def is_invoke_def)

lemma payload_frame_shape:
  assumes "df e = Inr d"
  obtains p where "payload_frame e = Inr p"
    "df_columns p = [Suc 0..<length (df_columns d)]"
    "df_index p = df_index d"
    "df_rows p = map (\<lambda>r. map (cell_of d r) [Suc 0..<length (df_columns d)]) (df_rows d)"
    "length (df_index p) = length (df_rows p)"
proof -
  have cols: "drop 1 (df_columns d) = [Suc 0..<length (df_columns d)]"
    by (subst read_csv_frame(3) [OF assms]) (simp add: drop_upt)
  let ?p = "\<lparr> df_columns = drop 1 (df_columns d), df_index = df_index d,
           df_rows = map (\<lambda>r. map (cell_of d r) (drop 1 (df_columns d))) (df_rows d) \<rparr>"
  have "payload_frame e = Inr ?p" using assms by (rule payload_frame_ok)
  moreover have "df_columns ?p = [Suc 0..<length (df_columns d)]" using cols by simp
  moreover have "df_index ?p = df_index d" by simp
  moreover have "df_rows ?p =
      map (\<lambda>r. map (cell_of d r) [Suc 0..<length (df_columns d)]) (df_rows d)"
    using cols by simp
  moreover have "length (df_index ?p) = length (df_rows ?p)"
    by (simp add: read_csv_frame(1,2) [OF assms])
  ultimately show thesis by (rule that)
qed

subsection \<open>The encoder against the standard\<close>

lemma digits64:
  fixes n :: nat
  obtains q c where "n div 64 = q" "n mod 64 = c" "n = q * 64 + c" "c < 64"
proof -
  have "n = n div 64 * 64 + n mod 64" by simp
  moreover have "n mod 64 < 64" by simp
  ultimately show thesis using that by blast
qed

lemma three_digits:
  fixes n :: nat
  obtains a b c where "n div 4096 = a" "n div 64 mod 64 = b" "n mod 64 = c"
    "n = a * 4096 + b * 64 + c" "b < 64" "c < 64"
proof -
  obtain q c where q: "n div 64 = q" "n mod 64 = c" "n = q * 64 + c" "c < 64"
    by (rule digits64)
  obtain a b where a: "q div 64 = a" "q mod 64 = b" "q = a * 64 + b" "b < 64"
    by (rule digits64)
  have "n div 4096 = n div 64 div 64" by (simp add: div_mult2_eq)
  then have "n div 4096 = a" using q(1) a(1) by simp
  moreover have "n div 64 mod 64 = b" using q(1) a(2) by simp
  moreover have "n = a * 4096 + b * 64 + c" using q(3) a(3) by simp
  ultimately show thesis using that q(2,4) a(4) by blast
qed

lemma four_digits:
  fixes n :: nat
  obtains a b c d where "n div 262144 = a" "n div 4096 mod 64 = b" "n div 64 mod 64 = c"
    "n mod 64 = d" "n = a * 262144 + b * 4096 + c * 64 + d" "b < 64" "c < 64" "d < 64"
proof -
  obtain q d where q: "n div 64 = q" "n mod 64 = d" "n = q * 64 + d" "d < 64"
    by (rule digits64)
  obtain a b c where a: "q div 4096 = a" "q div 64 mod 64 = b" "q mod 64 = c"
    "q = a * 4096 + b * 64 + c" "b < 64" "c < 64"
    by (rule three_digits)
  have "n div 262144 = n div 64 div 4096" by (simp add: div_mult2_eq)
  then have "n div 262144 = a" using q(1) a(1) by simp
  moreover have "n div 4096 = n div 64 div 64" by (simp add: div_mult2_eq)
  then have "n div 4096 mod 64 = b" using q(1) a(2) by simp
  moreover have "n div 64 mod 64 = c" using q(1) a(3) by simp
  moreover have "n = a * 262144 + b * 4096 + c * 64 + d" using q(3) a(4) by simp
  ultimately show thesis using that q(2,4) a(5,6) by blast
qed

lemma utf8_bytes_cases:
  assumes "utf8_bytes n = Some bs"
  obtains (one) "n < 0x80" "bs = [n]"
  | (two) q c where "n = q * 64 + c" "c < 64" "2 \<le> q" "q \<le> 31"
      "bs = [0xC0 + q, 0x80 + c]"
  | (three) a b c where "n = a * 4096 + b * 64 + c" "b < 64" "c < 64" "a \<le> 15"
      "a = 0 \<longrightarrow> 32 \<le> b" "a = 13 \<longrightarrow> b \<le> 31"
      "bs = [0xE0 + a, 0x80 + b, 0x80 + c]"
  | (four) a b c d where "n = a * 262144 + b * 4096 + c * 64 + d" "b < 64" "c < 64" "d < 64"
      "a \<le> 4" "a = 0 \<longrightarrow> 16 \<le> b" "a = 4 \<longrightarrow> b \<le> 15"
      "bs = [0xF0 + a, 0x80 + b, 0x80 + c, 0x80 + d]"
proof -
  consider (r1) "n < 0x80" | (r2) "0x80 \<le> n" "n < 0x800"
    | (surrogate) "0xD800 \<le> n" "n \<le> 0xDFFF"
    | (r3) "0x800 \<le> n" "n < 0x10000" "\<not> (0xD800 \<le> n \<and> n \<le> 0xDFFF)"
    | (r4) "0x10000 \<le> n" "n < 0x110000" | (beyond) "0x110000 \<le> n"
    by linarith
  then show thesis
  proof cases
    case r1
    then have "bs = [n]" using assms by (simp add: utf8_bytes_def)
    with r1 show thesis by (rule one)
  next
    case r2
    obtain q c where d: "n div 64 = q" "n mod 64 = c" "n = q * 64 + c" "c < 64"
      by (rule digits64)
    have "utf8_bytes n = Some [0xC0 + n div 64, 0x80 + n mod 64]"
      using r2 by (simp add: utf8_bytes_def)
    then have bs: "bs = [0xC0 + q, 0x80 + c]" using assms d(1,2) by simp
    have "2 \<le> q" "q \<le> 31" using r2 d(3,4) by linarith+
    with d(3,4) bs show thesis by (intro two)
  next
    case surrogate
    then have "utf8_bytes n = None" by (simp add: utf8_bytes_def)
    then show thesis using assms by simp
  next
    case r3
    obtain a b c where d: "n div 4096 = a" "n div 64 mod 64 = b" "n mod 64 = c"
      "n = a * 4096 + b * 64 + c" "b < 64" "c < 64"
      by (rule three_digits)
    have "utf8_bytes n = Some [0xE0 + n div 4096, 0x80 + n div 64 mod 64, 0x80 + n mod 64]"
      using r3 by (simp add: utf8_bytes_def)
    then have bs: "bs = [0xE0 + a, 0x80 + b, 0x80 + c]" using assms d(1,2,3) by simp
    have "a \<le> 15" using r3(2) d(4) by linarith
    moreover have "a = 0 \<longrightarrow> 32 \<le> b" using r3(1) d(4,6) by linarith
    moreover have "a = 13 \<longrightarrow> b \<le> 31" using r3(3) d(4,5,6) by linarith
    ultimately show thesis using d(4,5,6) bs by (intro three)
  next
    case r4
    obtain a b c d where d: "n div 262144 = a" "n div 4096 mod 64 = b"
      "n div 64 mod 64 = c" "n mod 64 = d" "n = a * 262144 + b * 4096 + c * 64 + d"
      "b < 64" "c < 64" "d < 64"
      by (rule four_digits)
    have "utf8_bytes n = Some [0xF0 + n div 262144, 0x80 + n div 4096 mod 64,
        0x80 + n div 64 mod 64, 0x80 + n mod 64]"
      using r4 by (simp add: utf8_bytes_def)
    then have bs: "bs = [0xF0 + a, 0x80 + b, 0x80 + c, 0x80 + d]"
      using assms d(1,2,3,4) by simp
    have "a \<le> 4" using r4(2) d(5) by linarith
    moreover have "a = 0 \<longrightarrow> 16 \<le> b" using r4(1) d(5,7,8) by linarith
    moreover have "a = 4 \<longrightarrow> b \<le> 15" using r4(2) d(5) by linarith
    ultimately show thesis using d(5,6,7,8) bs by (intro four)
  next
    case beyond
    then have "utf8_bytes n = None" by (simp add: utf8_bytes_def)
    then show thesis using assms by simp
  qed
qed

lemma utf8_bytes_decoded:
  assumes "utf8_bytes n = Some bs"
  shows "well_formed_utf8 (bs @ rest) = map_option (Cons n) (well_formed_utf8 rest)"
  using assms
proof (cases rule: utf8_bytes_cases)
  case one
  then show ?thesis by simp
next
  case (two q c)
  then show ?thesis by (simp add: continuation_def)
next
  case (three a b c)
  have "second_byte (0xE0 + a) (0x80 + b)"
    using three(2,4,5,6) by (auto simp: second_byte_def continuation_def)
  then show ?thesis using three by (simp add: continuation_def)
next
  case (four a b c d)
  have "second_byte (0xF0 + a) (0x80 + b)"
    using four(2,5,6,7) by (auto simp: second_byte_def continuation_def)
  then show ?thesis using four by (simp add: continuation_def)
qed

lemma utf8_bytes_below_256:
  assumes "utf8_bytes n = Some bs" "b \<in> set bs"
  shows "b < 256"
  using assms(1)
proof (cases rule: utf8_bytes_cases)
  case one
  then show ?thesis using assms(2) by simp
next
  case (two q c)
  then show ?thesis using assms(2) by auto
next
  case (three a b' c)
  then show ?thesis using assms(2) by auto
next
  case (four a b' c d)
  then show ?thesis using assms(2) by auto
qed

lemma unat_byte: "n < 256 \<Longrightarrow> unat (of_nat n :: 8 word) = n"
  by (simp add: unat_of_nat)

lemma utf8_bytes_unat:
  assumes "utf8_bytes n = Some bs"
  shows "map unat (map of_nat bs :: bytes) = bs"
proof -
  have "unat (of_nat b :: 8 word) = b" if "b \<in> set bs" for b
    using utf8_bytes_below_256 [OF assms that] by (rule unat_byte)
  then show ?thesis by (simp add: map_idI)
qed

lemma encode_utf8_decoded:
  assumes "encode_utf8 t = Inr bs"
  shows "decode_utf8 bs = Some t"
  using assms
proof (induction t arbitrary: bs)
  case Nil
  then show ?case by (simp add: decode_utf8_def)
next
  case (Cons c cs)
  from Cons.prems obtain cb rest where cb: "utf8_bytes c = Some cb"
    and rest: "encode_utf8 cs = Inr rest" and bs: "bs = map of_nat cb @ rest"
    by (auto split: option.splits sum.splits)
  have "decode_utf8 rest = Some cs" using rest by (rule Cons.IH)
  then have "well_formed_utf8 (cb @ map unat rest) = Some (c # cs)"
    unfolding decode_utf8_def by (simp add: utf8_bytes_decoded [OF cb])
  moreover have "map unat (map of_nat cb @ rest) = cb @ map unat rest"
    by (simp only: map_append utf8_bytes_unat [OF cb])
  ultimately show ?case unfolding bs decode_utf8_def by simp
qed

text \<open>
  Some byte strings: a text with characters of one, two, three and four bytes; a lone
  byte E9, an overlong form of U+0000 and an encoded surrogate are not UTF-8.
\<close>

lemma utf8_examples:
  "encode_utf8 [0x48, 0xE9, 0x20AC, 0x1F600] =
     Inr [0x48, 0xC3, 0xA9, 0xE2, 0x82, 0xAC, 0xF0, 0x9F, 0x98, 0x80]"
  "decode_utf8 [0x48, 0xC3, 0xA9, 0xE2, 0x82, 0xAC, 0xF0, 0x9F, 0x98, 0x80] =
     Some [0x48, 0xE9, 0x20AC, 0x1F600]"
  "decode_utf8 [0xE9] = None"
  "decode_utf8 [0xC0, 0x80] = None"
  "decode_utf8 [0xED, 0xA0, 0x80] = None"
  "encode_utf8 [0xD800] = Inl UnicodeEncodeError"
  by (simp_all add: utf8_bytes_def decode_utf8_def continuation_def second_byte_def)

text \<open>The body for a cell that holds U+00E9: the two bytes C3 A9 and the line end.\<close>

lemma payload_accented: "payload accented_env = Inr [0xC3, 0xA9, 0x0A]"
  by code_simp

text \<open>
  C7: the inference interface uses CSV both ways. A complete session invokes the endpoint
  exactly once, with ContentType \<^verbatim>\<open>text/csv\<close> and a body that is the UTF-8 encoding of
  \<^verbatim>\<open>to_csv(header=False, index=False)\<close> of a dataframe: the body is a well-formed UTF-8
  byte string, and the text it stands for by the standard is one line per row, the cells
  of the row joined by commas, no line of column labels and no row label. The response
  body is split at its commas (the pieces put together with commas give the body back,
  and no piece holds a comma) and every piece is converted to a float.
\<close>

theorem inference_payloads_are_csv:
  assumes "notebook e = Some (Inr s)"
  shows "\<exists>p body predictions.
      payload_frame e = Inr p
    \<and> encode_utf8 (to_csv False False p) = Inr body
    \<and> decode_utf8 body = Some (to_csv False False p)
    \<and> filter is_invoke (log s) = [InvokeEndpoint (endpoint_name e) ''text/csv'' body]
    \<and> to_csv False False p =
        concat (map (\<lambda>r. join (ascii '','') r @ ascii newline) (df_rows p))
    \<and> predictions_of e (endpoint_body e) = Inr predictions
    \<and> map (to_float e) (str_split CHR '','' (endpoint_body e)) = map Some predictions
    \<and> join '','' (str_split CHR '','' (endpoint_body e)) = endpoint_body e
    \<and> (\<forall>piece \<in> set (str_split CHR '','' (endpoint_body e)). CHR '','' \<notin> set piece)"
  using assms
proof (cases rule: notebook_cases)
  case (complete m d body predictions)
  from \<open>df e = Inr d\<close> obtain p where p: "payload_frame e = Inr p"
    and len: "length (df_index p) = length (df_rows p)"
    by (rule payload_frame_shape)
  have body: "encode_utf8 (to_csv False False p) = Inr body"
    using complete(3) p by (simp add: payload_def)
  then have decoded: "decode_utf8 body = Some (to_csv False False p)"
    by (rule encode_utf8_decoded)
  have "filter is_invoke (log s) = [InvokeEndpoint (endpoint_name e) ''text/csv'' body]"
    using complete(5) by (simp add: invoke_in_full_log)
  moreover have "to_csv False False p =
      concat (map (\<lambda>r. join (ascii '','') r @ ascii newline) (df_rows p))"
    using len by (rule to_csv_plain)
  moreover have "map (to_float e) (str_split CHR '','' (endpoint_body e)) = map Some predictions"
    using complete(4) unfolding predictions_of_def by (rule asarray_float_Inr)
  moreover have "join '','' (str_split CHR '','' (endpoint_body e)) = endpoint_body e"
    by (rule str_split_join)
  moreover have "\<forall>piece \<in> set (str_split CHR '','' (endpoint_body e)). CHR '','' \<notin> set piece"
    using str_split_pieces by blast
  ultimately show ?thesis using p body decoded complete(4) by blast
qed simp_all

theorem inference_payloads_are_csv_witness:
  "notebook example_env = Some (Inr example_final)
   \<and> filter is_invoke (log example_final) =
       [InvokeEndpoint ''gw-customer-churn-endpoint-11-3-9-5'' ''text/csv''
          [48, 46, 53, 44, 55, 10, 48, 46, 50, 53, 44, 51, 10]]
   \<and> decode_utf8 [48, 46, 53, 44, 55, 10, 48, 46, 50, 53, 44, 51, 10] =
       Some (ascii (''0.5,7'' @ newline @ ''0.25,3'' @ newline))
   \<and> predictions_of example_env (endpoint_body example_env) = Inr [9 / 10, 1 / 5]"
proof -
  have "filter is_invoke (log example_final) =
       [InvokeEndpoint ''gw-customer-churn-endpoint-11-3-9-5'' ''text/csv''
          [48, 46, 53, 44, 55, 10, 48, 46, 50, 53, 44, 51, 10]]"
    by code_simp
  moreover have "decode_utf8 [48, 46, 53, 44, 55, 10, 48, 46, 50, 53, 44, 51, 10] =
       Some (ascii (''0.5,7'' @ newline @ ''0.25,3'' @ newline))"
    by code_simp
  moreover have "predictions_of example_env (endpoint_body example_env) = Inr [9 / 10, 1 / 5]"
    by code_simp
  ultimately show ?thesis
    using inference_payloads_are_csv [OF notebook_example_final] notebook_example_final
    by blast
qed

lemma invoke_not_before_download:
  "InvokeEndpoint name content_type body \<notin> set (build_log e @ run_log e m @ download_log e)"
proof
  assume "InvokeEndpoint name content_type body \<in> set (build_log e @ run_log e m @ download_log e)"
  moreover have "is_invoke (InvokeEndpoint name content_type body)" by (simp add: is_invoke_def)
  ultimately have "list_ex is_invoke (build_log e @ run_log e m @ download_log e)"
    unfolding list_ex_iff by blast
  then show False by (simp add: log_kinds)
qed

lemma invoke_in_log:
  assumes "InvokeEndpoint name content_type body \<in>
      set (build_log e @ run_log e m @ download_log e @ invoke_log e body' @ tr)"
    "\<not> list_ex is_invoke tr"
  shows "body = body'"
proof -
  have inv: "is_invoke (InvokeEndpoint name content_type body)" by (simp add: is_invoke_def)
  have "InvokeEndpoint name content_type body \<notin> set tr"
    using assms(2) inv unfolding list_ex_iff by blast
  moreover have "InvokeEndpoint name content_type body \<notin>
      set (build_log e @ run_log e m @ download_log e)"
    by (rule invoke_not_before_download)
  ultimately have "InvokeEndpoint name content_type body \<in> set (invoke_log e body')"
    using assms(1) by auto
  then show ?thesis by (simp add: invoke_log_def)
qed

text \<open>
  C9: whenever the endpoint is invoked, the request body is made from the dataframe read
  from the downloaded test file with its first column left out: the payload has the
  columns 1 to the last, never column 0. For a table whose rows all have the width of
  the dataframe the body is the CSV text of the rows without their first cell, and the
  first cells are what the notebook later uses as \<^verbatim>\<open>actuals\<close>.
\<close>

theorem label_column_not_sent:
  assumes "notebook e = Some r"
    and "InvokeEndpoint name content_type body \<in> set (log_of r)"
  shows "\<exists>d p.
      df e = Inr d \<and> df_rows d = test_csv e
    \<and> df_columns d = [0..<length (df_columns d)]
    \<and> payload_frame e = Inr p
    \<and> df_columns p = [1..<length (df_columns d)]
    \<and> 0 \<notin> set (df_columns p)
    \<and> df_rows p = map (\<lambda>r. map (cell_of d r) [1..<length (df_columns d)]) (df_rows d)
    \<and> encode_utf8 (to_csv False False p) = Inr body
    \<and> (list_all (\<lambda>r. length r = length (df_columns d)) (df_rows d) \<longrightarrow>
          df_rows p = map tl (test_csv e)
        \<and> encode_utf8
            (concat (map (\<lambda>r. join (ascii '','') (tl r) @ ascii newline) (test_csv e))) =
            Inr body)
    \<and> (list_all (\<lambda>r. length r = length (df_columns d)) (df_rows d)
         \<and> 0 < length (df_columns d) \<longrightarrow> actuals e = Inr (map hd (test_csv e)))"
proof -
  from assms(1) obtain d body' where d: "df e = Inr d" and body': "payload e = Inr body'"
    and sent: "body = body'"
  proof (cases rule: notebook_cases)
    case (no_payload m err)
    then have False using assms(2) invoke_not_before_download [of name content_type body e m]
      by (simp add: log_of_def state_of_def)
    then show ?thesis ..
  next
    case (no_floats m d body' err)
    have "body = body'"
      using assms(2) no_floats(5) invoke_in_log [of name content_type body e m body' "[]"]
      by (simp add: log_of_def state_of_def)
    with no_floats that show ?thesis by blast
  next
    case (complete m d body' predictions)
    have "body = body'"
      using assms(2) complete(5)
        invoke_in_log [of name content_type body e m body' "clean_up_log e"]
      by (simp add: log_of_def state_of_def full_log_def log_kinds)
    with complete that show ?thesis by blast
  qed
  from d obtain p where p: "payload_frame e = Inr p"
    and cols: "df_columns p = [Suc 0..<length (df_columns d)]"
    and rows: "df_rows p = map (\<lambda>r. map (cell_of d r) [Suc 0..<length (df_columns d)]) (df_rows d)"
    and len: "length (df_index p) = length (df_rows p)"
    by (rule payload_frame_shape)
  note frame = read_csv_frame [OF d]
  have body: "encode_utf8 (to_csv False False p) = Inr body"
    using body' p sent by (simp add: payload_def)
  have rect: "df_rows p = map tl (test_csv e)
        \<and> encode_utf8
            (concat (map (\<lambda>r. join (ascii '','') (tl r) @ ascii newline) (test_csv e))) =
            Inr body"
    if "list_all (\<lambda>r. length r = length (df_columns d)) (df_rows d)"
  proof -
    have "map (\<lambda>r. map (cell_of d r) [Suc 0..<length (df_columns d)]) (df_rows d) =
        map tl (df_rows d)"
      using that frame(3) by (intro map_cong refl payload_row) (simp_all add: list_all_iff)
    then have tl: "df_rows p = map tl (test_csv e)" using rows frame(1) by simp
    then show ?thesis using body to_csv_plain [OF len] by (simp add: comp_def)
  qed
  have labels: "actuals e = Inr (map hd (test_csv e))"
    if "list_all (\<lambda>r. length r = length (df_columns d)) (df_rows d)"
      and "0 < length (df_columns d)"
  proof -
    have zero: "0 \<in> set (df_columns d)" using that(2) by (subst frame(3)) simp
    have "map (\<lambda>r. cell_of d r 0) (df_rows d) = map hd (df_rows d)"
    proof (intro map_cong refl)
      fix r assume "r \<in> set (df_rows d)"
      then have r: "length r = length (df_columns d)" using that(1) by (simp add: list_all_iff)
      have "position 0 (df_columns d) = 0"
        using that(2) by (subst frame(3)) (rule position_upt)
      moreover have "r \<noteq> []" using r that(2) by auto
      ultimately show "cell_of d r 0 = hd r"
        using r that(2) by (simp add: cell_of_def hd_conv_nth)
    qed
    then show ?thesis using d zero frame(1) by (simp add: actuals_def getitem_column_def)
  qed
  show ?thesis
    using d frame(1,3) p cols rows body rect labels
    by (intro exI [of _ d] exI [of _ p]) simp
qed

theorem label_column_not_sent_witness:
  "notebook example_env = Some (Inr example_final)
   \<and> InvokeEndpoint ''gw-customer-churn-endpoint-11-3-9-5'' ''text/csv'' example_body
       \<in> set (log example_final)
   \<and> encode_utf8 (concat (map (\<lambda>r. join (ascii '','') (tl r) @ ascii newline)
         [[ascii ''1'', ascii ''0.5'', ascii ''7''],
          [ascii ''0'', ascii ''0.25'', ascii ''3'']])) = Inr example_body
   \<and> actuals example_env = Inr [ascii ''1'', ascii ''0'']"
proof -
  have name: "endpoint_name example_env = ''gw-customer-churn-endpoint-11-3-9-5''"
    by code_simp
  have inv: "InvokeEndpoint ''gw-customer-churn-endpoint-11-3-9-5'' ''text/csv'' example_body
       \<in> set (log_of (Inr example_final))"
    by (simp add: log_of_def state_of_def example_final_def invoke_log_def name)
  from label_column_not_sent [OF notebook_example_final inv]
  obtain d :: dataframe and p :: dataframe where
    d: "df example_env = Inr d"
    and rect: "list_all (\<lambda>r. length r = length (df_columns d)) (df_rows d) \<longrightarrow>
          df_rows p = map tl (test_csv example_env)
        \<and> encode_utf8 (concat (map (\<lambda>r. join (ascii '','') (tl r) @ ascii newline)
              (test_csv example_env))) = Inr example_body"
    and labels: "list_all (\<lambda>r. length r = length (df_columns d)) (df_rows d)
         \<and> 0 < length (df_columns d) \<longrightarrow> actuals example_env = Inr (map hd (test_csv example_env))"
    by blast
  have table: "test_csv example_env =
      [[ascii ''1'', ascii ''0.5'', ascii ''7''], [ascii ''0'', ascii ''0.25'', ascii ''3'']]"
    by (simp add: example_env_def)
  have "df example_env =
      Inr \<lparr> df_columns = [0, 1, 2], df_index = [0, 1],
            df_rows = [[ascii ''1'', ascii ''0.5'', ascii ''7''],
                       [ascii ''0'', ascii ''0.25'', ascii ''3'']] \<rparr>"
    by code_simp
  with d have d_eq: "d = \<lparr> df_columns = [0, 1, 2], df_index = [0, 1],
            df_rows = [[ascii ''1'', ascii ''0.5'', ascii ''7''],
                       [ascii ''0'', ascii ''0.25'', ascii ''3'']] \<rparr>"
    by simp
  have full: "list_all (\<lambda>r. length r = length (df_columns d)) (df_rows d)"
    "0 < length (df_columns d)"
    unfolding d_eq by simp_all
  have "encode_utf8 (concat (map (\<lambda>r. join (ascii '','') (tl r) @ ascii newline)
         [[ascii ''1'', ascii ''0.5'', ascii ''7''],
          [ascii ''0'', ascii ''0.25'', ascii ''3'']])) = Inr example_body"
    using rect full(1) unfolding table by blast
  moreover have "actuals example_env = Inr [ascii ''1'', ascii ''0'']"
    using labels full unfolding table by simp
  ultimately show ?thesis
    using notebook_example_final inv by (simp add: log_of_def state_of_def)
qed

end
